theory Spec2Isabelle
  imports
    Main
    "HOL-Library.Word"
    "HOL-Library.AList"
    "HOL-Library.Char_ord"
    "HOL-Library.List_Lexorder"
begin

unbundle bit_operations_syntax

section \<open>Python values\<close>

text \<open>
  Field values of a record are arbitrary Python objects. The code under study only ever asks
  whether a value is a \<^verbatim>\<open>list\<close>, a \<^verbatim>\<open>tuple\<close> or something else, so a value is a tree whose
  inner nodes are lists and tuples and whose leaves are atoms of an arbitrary type \<open>'a\<close>
  (integers, byte strings, ...). Atoms are compared with HOL equality and are hashable.
  Values are data: a value cannot be called, and it has none of the attributes of a schema
  (\<^verbatim>\<open>fields\<close>, \<^verbatim>\<open>field_names\<close>, \<^verbatim>\<open>field_attrs\<close>).
\<close>

datatype 'a pyval =
    Atom 'a
  | PyList "'a pyval list"
  | PyTuple "'a pyval list"

text \<open>
  A \<^verbatim>\<open>dict\<close> is an association list in insertion order; \<^verbatim>\<open>dict(pairs)\<close> keeps the position
  of the first occurrence of a key and the value of the last one.
\<close>

type_synonym 'v pydict = "(string \<times> 'v) list"

definition dict_of_pairs :: "(string \<times> 'v) list \<Rightarrow> 'v pydict" where
  "dict_of_pairs pairs = fold (\<lambda>(k, v) d. AList.update k v d) pairs []"

definition keys :: "'v pydict \<Rightarrow> string list" where
  "keys d = map fst d"

text \<open>\<^verbatim>\<open>sorted(s)\<close> for a set \<open>s\<close> of strings that is held as a list.\<close>

definition sorted_set :: "string list \<Rightarrow> string list" where
  "sorted_set xs = sort (remdups xs)"

section \<open>Exceptions\<close>

text \<open>
  A message is kept as the format string's name together with the values formatted into it.
  \<open>Unhashable_list\<close> is the interpreter's message for \<^verbatim>\<open>hash([..])\<close>. \<open>Not_callable n\<close> stands for
  the message of the \<^verbatim>\<open>TypeError\<close> that the interpreter raises when what it finds under the name
  \<open>n\<close> is not a function but a value, \<open>Hash_not_int\<close> for the one it raises when \<^verbatim>\<open>__hash__\<close>
  returns something that is no \<^verbatim>\<open>int\<close>, and \<open>Cannot_set_attribute\<close> is the message of the setter
  of a field property.
\<close>

datatype msg =
    Text string
  | Duplicate_argument_names "string list"
  | Duplicate_kwargs "string list"
  | Unknown_kwargs "string list"
  | Missing_kwargs "string list"
  | Argument_count_mismatch nat nat "string list"
  | Changeset_not_active
  | Cannot_open_not_OPEN
  | Cannot_open_not_INITIALIZED
  | Cannot_close_not_OPEN
  | Multiple_parents_without_fields
  | Duplicated_fields "string list"
  | Invalid_identifiers "string list"
  | Missing_fields "string list"
  | Unhashable_list
  | Not_callable string
  | Hash_not_int
  | Cannot_set_attribute
  | No_attribute string
  | Bad_index
  | Element_at_index int msg
  | Underlying_list msg
  | Field_failed string msg

datatype exn =
    TypeError msg
  | ValueError msg
  | AttributeError msg
  | KeyError string
  | IndexError msg
  | AssertionError
  | RecursionError

section \<open>The builtin \<^verbatim>\<open>hash\<close>\<close>

text \<open>
  \<^verbatim>\<open>BaseSerializable.__hash__\<close> calls the builtin \<^verbatim>\<open>hash\<close> on a tuple. The builtin is the
  interpreter's (CPython, 64-bit): a list is unhashable, a tuple is hashed from the hashes
  of its items by the loop of \<^verbatim>\<open>tuplehash\<close>, an atom by its own hash function \<open>ah\<close>, which is a
  parameter. \<open>long_hash\<close> is the hash of a Python \<^verbatim>\<open>int\<close>: the value modulo \<open>2^61 - 1\<close> with
  the sign of the argument, and \<open>-2\<close> in place of \<open>-1\<close>.
\<close>

definition long_hash :: "int \<Rightarrow> int" where
  "long_hash n = (let x = sgn n * (\<bar>n\<bar> mod (2 ^ 61 - 1)) in if x = - 1 then - 2 else x)"

definition XXPRIME_1 :: "64 word" where
  "XXPRIME_1 = 11400714785074694791"

definition XXPRIME_2 :: "64 word" where
  "XXPRIME_2 = 14029467366897019727"

definition XXPRIME_5 :: "64 word" where
  "XXPRIME_5 = 2870177450012600261"

definition XXROTATE :: "64 word \<Rightarrow> 64 word" where
  "XXROTATE x = (push_bit 31 x OR drop_bit 33 x)"

fun py_hash :: "('a \<Rightarrow> int) \<Rightarrow> 'a pyval \<Rightarrow> exn + int"
  and tuplehash :: "('a \<Rightarrow> int) \<Rightarrow> 64 word \<Rightarrow> nat \<Rightarrow> 'a pyval list \<Rightarrow> exn + int" where
  "py_hash ah (Atom a) = Inr (ah a)"
| "py_hash ah (PyList xs) = Inl (TypeError Unhashable_list)"
| "py_hash ah (PyTuple xs) = tuplehash ah XXPRIME_5 (length xs) xs"
| "tuplehash ah acc len [] =
     (let acc = acc + (word_of_nat len XOR (XXPRIME_5 XOR 3527539))
      in Inr (if acc = - 1 then 1546275796 else sint acc))"
| "tuplehash ah acc len (item # rest) =
     (case py_hash ah item of
        Inl e \<Rightarrow> Inl e
      | Inr lane \<Rightarrow>
          tuplehash ah (XXROTATE (acc + word_of_int lane * XXPRIME_2) * XXPRIME_1) len rest)"

section \<open>Helpers of \<^verbatim>\<open>rlp/sedes/serializable.py\<close>\<close>

text \<open>
  \<^verbatim>\<open>_get_duplicates\<close>: the items of a \<^verbatim>\<open>Counter\<close> with a count above one, in the order of
  their first occurrence.
\<close>

definition get_duplicates :: "string list \<Rightarrow> string list" where
  "get_duplicates vals = [item \<leftarrow> rev (remdups (rev vals)). 1 < count_list vals item]"

text \<open>
  \<^verbatim>\<open>validate_args_and_kwargs\<close>. The sets of the source are lists here; they are sorted only
  when formatted into a message.
\<close>

definition validate_args_and_kwargs ::
  "'v list \<Rightarrow> 'v pydict \<Rightarrow> string list \<Rightarrow> bool \<Rightarrow> exn + unit" where
  "validate_args_and_kwargs args kwargs arg_names allow_missing =
     (let duplicate_arg_names = get_duplicates arg_names in
      if duplicate_arg_names \<noteq> [] then
        Inl (TypeError (Duplicate_argument_names (sort duplicate_arg_names)))
      else
        let needed_kwargs = drop (length args) arg_names;
            used_kwargs = take (length args) arg_names;
            duplicate_kwargs = [k \<leftarrow> used_kwargs. k \<in> set (keys kwargs)]
        in
        if duplicate_kwargs \<noteq> [] then
          Inl (TypeError (Duplicate_kwargs (sorted_set duplicate_kwargs)))
        else
          let unknown_kwargs = [k \<leftarrow> keys kwargs. k \<notin> set arg_names] in
          if unknown_kwargs \<noteq> [] then
            Inl (TypeError (Unknown_kwargs (sorted_set unknown_kwargs)))
          else
            let missing_kwargs = [k \<leftarrow> needed_kwargs. k \<notin> set (keys kwargs)] in
            if \<not> allow_missing \<and> missing_kwargs \<noteq> [] then
              Inl (TypeError (Missing_kwargs (sorted_set missing_kwargs)))
            else Inr ())"

text \<open>\<^verbatim>\<open>kwargs[arg_name]\<close> for each name in turn; the first absent key raises \<^verbatim>\<open>KeyError\<close>.\<close>

fun lookup_each :: "'v pydict \<Rightarrow> string list \<Rightarrow> exn + 'v list" where
  "lookup_each kwargs [] = Inr []"
| "lookup_each kwargs (arg_name # rest) =
     (case map_of kwargs arg_name of
        None \<Rightarrow> Inl (KeyError arg_name)
      | Some v \<Rightarrow>
          (case lookup_each kwargs rest of
             Inl e \<Rightarrow> Inl e
           | Inr vs \<Rightarrow> Inr (v # vs)))"

definition merge_kwargs_to_args ::
  "'v list \<Rightarrow> 'v pydict \<Rightarrow> string list \<Rightarrow> bool \<Rightarrow> exn + 'v list" where
  "merge_kwargs_to_args args kwargs arg_names allow_missing =
     (case validate_args_and_kwargs args kwargs arg_names allow_missing of
        Inl e \<Rightarrow> Inl e
      | Inr _ \<Rightarrow>
          (let needed_kwargs = drop (length args) arg_names in
           case lookup_each kwargs needed_kwargs of
             Inl e \<Rightarrow> Inl e
           | Inr vs \<Rightarrow> Inr (args @ vs)))"

definition merge_args_to_kwargs ::
  "'v list \<Rightarrow> 'v pydict \<Rightarrow> string list \<Rightarrow> bool \<Rightarrow> exn + 'v pydict" where
  "merge_args_to_kwargs args kwargs arg_names allow_missing =
     (case validate_args_and_kwargs args kwargs arg_names allow_missing of
        Inl e \<Rightarrow> Inl e
      | Inr _ \<Rightarrow> Inr (dict_of_pairs (kwargs @ map (\<lambda>(v, name). (name, v)) (zip args arg_names))))"

text \<open>
  \<^verbatim>\<open>_eq\<close>: equality that identifies a list and a tuple with equivalent elements.
  \<open>py_eq_pairs\<close> is \<^verbatim>\<open>all(_eq(*pair) for pair in zip(left, right))\<close>.
\<close>

fun py_eq :: "'a pyval \<Rightarrow> 'a pyval \<Rightarrow> bool"
  and py_eq_pairs :: "'a pyval list \<Rightarrow> 'a pyval list \<Rightarrow> bool" where
  "py_eq (PyList xs) (PyList ys) = (length xs = length ys \<and> py_eq_pairs xs ys)"
| "py_eq (PyList xs) (PyTuple ys) = (length xs = length ys \<and> py_eq_pairs xs ys)"
| "py_eq (PyTuple xs) (PyList ys) = (length xs = length ys \<and> py_eq_pairs xs ys)"
| "py_eq (PyTuple xs) (PyTuple ys) = (length xs = length ys \<and> py_eq_pairs xs ys)"
| "py_eq left right = (left = right)"
| "py_eq_pairs (x # xs) (y # ys) = (py_eq x y \<and> py_eq_pairs xs ys)"
| "py_eq_pairs _ _ = True"

text \<open>\<^verbatim>\<open>make_immutable\<close>.\<close>

fun make_immutable :: "'a pyval \<Rightarrow> 'a pyval" where
  "make_immutable (PyList items) = PyTuple (map make_immutable items)"
| "make_immutable v = v"

section \<open>Schemas and classes\<close>

text \<open>
  \<^verbatim>\<open>MetaBase\<close>: the schema that the metaclass attaches to a class as \<^verbatim>\<open>_meta\<close>. The per-field
  sedes objects are of an arbitrary type \<open>'s\<close>; \<open>sedes\<close> holds the element sedes of the
  \<^verbatim>\<open>List\<close> sedes built from them, and \<open>meta_fields\<close> is the attribute \<^verbatim>\<open>fields\<close>.
\<close>

record 's meta =
  meta_fields :: "(string \<times> 's) list"
  field_names :: "string list"
  field_attrs :: "string list"
  sedes :: "'s list"

text \<open>
  What a class that the metaclass creates, or one of its parents, binds to a name: the
  property that \<^verbatim>\<open>_mk_field_property\<close> builds for a field, with the storage attribute that
  its getter and setter use; the class \<^verbatim>\<open>Meta\<close> (under \<^verbatim>\<open>_meta\<close>); whatever the body of the class
  statement binds to the name; and the \<^verbatim>\<open>None\<close> that the interpreter puts under \<^verbatim>\<open>__hash__\<close>
  in a class that binds \<^verbatim>\<open>__eq__\<close> and not \<^verbatim>\<open>__hash__\<close>.
\<close>

datatype cattr = Prop string | Meta_attr | Body_attr | Hash_None

text \<open>
  A class as the metaclass sees it: whether it is an instance of \<^verbatim>\<open>SerializableBase\<close>, its
  \<^verbatim>\<open>_meta\<close> if it has one, and the names found in the \<^verbatim>\<open>__dict__\<close> and \<^verbatim>\<open>__slots__\<close> of the
  classes of its \<^verbatim>\<open>__mro__\<close>. For the lookup of an attribute on the class or on one of its
  instances, \<open>cls_dict\<close> holds what the classes created by the metaclass bind, the class
  itself first and then its bases in their order (the order of the \<^verbatim>\<open>__mro__\<close> when no class
  is reached through two bases); a name that is not in \<open>cls_dict\<close> is looked up in
  \<^verbatim>\<open>BaseSerializable\<close>. \<open>cls_under_Serializable\<close> tells whether the class is \<^verbatim>\<open>Serializable\<close> or
  one of its subclasses, as \<^verbatim>\<open>isinstance(obj, Serializable)\<close> asks of the class of \<^verbatim>\<open>obj\<close>.
\<close>

record 's pyclass =
  cls_name :: string
  cls_is_serializable :: bool
  cls_meta :: "'s meta option"
  cls_namespace :: "string list"
  cls_dict :: "(string \<times> cattr) list"
  cls_under_Serializable :: bool

text \<open>
  The body of a class statement (the \<^verbatim>\<open>attrs\<close> that the metaclass receives): the \<^verbatim>\<open>fields\<close>
  entry if there is one, and the other keys. What a body binds to a key is data, except
  that it binds \<^verbatim>\<open>_meta\<close>, if at all, to a class, which becomes the base of the new \<^verbatim>\<open>Meta\<close>.
\<close>

record 's class_body =
  declared_fields :: "(string \<times> 's) list option"
  other_attrs :: "string list"

text \<open>
  The inner loop of \<^verbatim>\<open>_mk_field_attrs\<close>: prefix underscores until the name is new. It ends
  because every round that finds the name taken finds a longer taken name.
\<close>

function fresh_attr :: "string \<Rightarrow> string list \<Rightarrow> string" where
  "fresh_attr field namespace =
     (let field' = CHR ''_'' # field
      in if field' \<notin> set namespace then field' else fresh_attr field' namespace)"
  by pat_completeness auto
termination
proof (relation "measure (\<lambda>(field, namespace). length [s \<leftarrow> namespace. length field < length s])")
  show "wf (measure (\<lambda>(field, namespace). length [s \<leftarrow> namespace. length field < length s]))"
    by simp
next
  fix field :: string and namespace :: "string list" and x :: string
  assume x: "x = CHR ''_'' # field" and "\<not> x \<notin> set namespace"
  then have mem: "x \<in> set namespace" by simp
  have "length [s \<leftarrow> ns. length x < length s] < length [s \<leftarrow> ns. length field < length s]"
    if "x \<in> set ns" for ns
    using that
  proof (induction ns)
    case Nil
    then show ?case by simp
  next
    case (Cons a ns)
    have le: "length [s \<leftarrow> ns. length x < length s] \<le> length [s \<leftarrow> ns. length field < length s]"
      by (induction ns) (auto simp: x)
    show ?case
    proof (cases "x \<in> set ns")
      case True
      with Cons.IH show ?thesis by (auto simp: x)
    next
      case False
      with Cons.prems have "a = x" by simp
      with le show ?thesis by (simp add: x)
    qed
  qed
  with mem show "((x, namespace), (field, namespace))
      \<in> measure (\<lambda>(field, namespace). length [s \<leftarrow> namespace. length field < length s])"
    by simp
qed

fun mk_field_attrs_loop :: "string list \<Rightarrow> string list \<Rightarrow> string list" where
  "mk_field_attrs_loop [] namespace = []"
| "mk_field_attrs_loop (field # rest) namespace =
     (let attr = fresh_attr field namespace
      in attr # mk_field_attrs_loop rest (attr # namespace))"

text \<open>\<^verbatim>\<open>_mk_field_attrs\<close>.\<close>

definition mk_field_attrs :: "string list \<Rightarrow> string list \<Rightarrow> string list" where
  "mk_field_attrs names extra_namespace = mk_field_attrs_loop names (names @ extra_namespace)"

text \<open>
  \<^verbatim>\<open>_is_valid_identifier\<close>: a match of the regular expression \<^verbatim>\<open>^[^\d\W]\w*\Z\<close>, compiled
  with \<^verbatim>\<open>re.UNICODE\<close>: a word character that is no decimal digit, then word characters up to
  the end of the string. A character of a \<open>string\<close> is a code point below 256. Among these
  the decimal digits (\<^verbatim>\<open>\d\<close>) are \<^verbatim>\<open>0\<close> to \<^verbatim>\<open>9\<close>, and the word characters (\<^verbatim>\<open>\w\<close>, the
  alphanumeric characters of Unicode and the underscore) are the ASCII letters and digits,
  the underscore, and the code points \<open>0xAA\<close>, \<open>0xB2\<close>, \<open>0xB3\<close>, \<open>0xB5\<close>, \<open>0xB9\<close>, \<open>0xBA\<close>,
  \<open>0xBC\<close> to \<open>0xBE\<close>, \<open>0xC0\<close> to \<open>0xD6\<close>, \<open>0xD8\<close> to \<open>0xF6\<close> and \<open>0xF8\<close> to \<open>0xFF\<close>.
\<close>

definition is_digit :: "char \<Rightarrow> bool" where
  "is_digit c = (let n = (of_char c :: nat) in 48 \<le> n \<and> n \<le> 57)"

definition is_word_char :: "char \<Rightarrow> bool" where
  "is_word_char c =
     (let n = (of_char c :: nat) in
      (48 \<le> n \<and> n \<le> 57) \<or> (65 \<le> n \<and> n \<le> 90) \<or> n = 95 \<or> (97 \<le> n \<and> n \<le> 122)
      \<or> n = 170 \<or> n = 178 \<or> n = 179 \<or> n = 181 \<or> n = 185 \<or> n = 186
      \<or> (188 \<le> n \<and> n \<le> 190) \<or> (192 \<le> n \<and> n \<le> 214) \<or> (216 \<le> n \<and> n \<le> 246)
      \<or> 248 \<le> n)"

fun is_valid_identifier :: "string \<Rightarrow> bool" where
  "is_valid_identifier [] = False"
| "is_valid_identifier (c # cs) = (is_word_char c \<and> \<not> is_digit c \<and> list_all is_word_char cs)"

text \<open>
  The entry \<^verbatim>\<open>__hash__ = None\<close> that the interpreter adds to the namespace of a new class that
  binds \<^verbatim>\<open>__eq__\<close> and not \<^verbatim>\<open>__hash__\<close>.
\<close>

definition implicit_hash :: "string list \<Rightarrow> (string \<times> cattr) list" where
  "implicit_hash own_names =
     (if ''__eq__'' \<in> set own_names \<and> ''__hash__'' \<notin> set own_names
      then [(''__hash__'', Hash_None)] else [])"

text \<open>
  \<^verbatim>\<open>SerializableBase.__new__\<close>. The class handed to \<^verbatim>\<open>super_new\<close> has the field properties and
  the remaining \<^verbatim>\<open>attrs\<close> in its own namespace and inherits the namespaces of its bases. In
  \<^verbatim>\<open>dict(field_props + tuple(attrs.items()))\<close> an entry of \<^verbatim>\<open>attrs\<close> replaces the property of a
  field of the same name, and \<^verbatim>\<open>attrs\<close> holds the new \<^verbatim>\<open>Meta\<close> under \<^verbatim>\<open>_meta\<close>.
\<close>

definition new_class :: "string \<Rightarrow> 's pyclass list \<Rightarrow> 's class_body \<Rightarrow> exn + 's pyclass" where
  "new_class name bases attrs =
     (let serializable_bases = filter cls_is_serializable bases;
          has_multiple_serializable_parents = (1 < length serializable_bases);
          is_serializable_subclass = (serializable_bases \<noteq> []);
          declares_fields = (declared_fields attrs \<noteq> None);
          inherited = concat (map cls_namespace bases)
      in
      if \<not> is_serializable_subclass then
        (let own_names = (if declares_fields then [''fields''] else []) @ other_attrs attrs in
         Inr \<lparr>cls_name = name, cls_is_serializable = True, cls_meta = None,
              cls_namespace = own_names @ inherited,
              cls_dict =
                map (\<lambda>k. (k, Body_attr)) own_names @ implicit_hash own_names
                  @ concat (map cls_dict bases),
              cls_under_Serializable = list_ex cls_under_Serializable bases\<rparr>)
      else if \<not> declares_fields \<and> has_multiple_serializable_parents then
        Inl (TypeError Multiple_parents_without_fields)
      else
        let flds =
              (case declared_fields attrs of
                 Some declared \<Rightarrow> declared
               | None \<Rightarrow>
                   (case cls_meta (hd serializable_bases) of
                      Some parent_meta \<Rightarrow> meta_fields parent_meta
                    | None \<Rightarrow> []));
            names = map fst flds;
            sds = map snd flds;
            duplicate_field_names = get_duplicates names
        in
        if duplicate_field_names \<noteq> [] then
          Inl (TypeError (Duplicated_fields (sort duplicate_field_names)))
        else
          let invalid_field_names = [n \<leftarrow> names. \<not> is_valid_identifier n] in
          if invalid_field_names \<noteq> [] then
            Inl (TypeError (Invalid_identifiers (sorted_set invalid_field_names)))
          else
            let parent_field_names =
                  concat (map (\<lambda>base. case cls_meta base of
                                         Some m \<Rightarrow> field_names m
                                       | None \<Rightarrow> [])
                              serializable_bases);
                missing_fields = [n \<leftarrow> parent_field_names. n \<notin> set names]
            in
            if missing_fields \<noteq> [] then
              Inl (TypeError (Missing_fields (sorted_set missing_fields)))
            else
              let reserved_namespace = other_attrs attrs @ inherited;
                  attr_names = mk_field_attrs names reserved_namespace;
                  m = \<lparr>meta_fields = flds, field_names = names, field_attrs = attr_names,
                       sedes = sds\<rparr>
              in
              Inr \<lparr>cls_name = name, cls_is_serializable = True, cls_meta = Some m,
                   cls_namespace =
                     names @ filter (\<lambda>k. k \<noteq> ''_meta'') (other_attrs attrs) @ [''_meta'']
                       @ inherited,
                   cls_dict =
                     (''_meta'', Meta_attr) # map (\<lambda>k. (k, Body_attr)) (other_attrs attrs)
                       @ zip names (map Prop attr_names)
                       @ implicit_hash (names @ other_attrs attrs)
                       @ concat (map cls_dict bases),
                   cls_under_Serializable = list_ex cls_under_Serializable bases\<rparr>)"

text \<open>
  \<^verbatim>\<open>BaseSerializable\<close> is not an instance of the metaclass; its namespace holds the names that
  its body binds. \<^verbatim>\<open>class Serializable(BaseSerializable, metaclass=SerializableBase)\<close> has an
  empty body, and \<open>Serializable\<close> is the class that \<open>new_class\<close> returns for it, marked as
  being \<^verbatim>\<open>Serializable\<close> itself: the class that \<^verbatim>\<open>__eq__\<close> names in its \<^verbatim>\<open>isinstance\<close> test. The
  names that the interpreter itself puts into a class namespace, and those of \<^verbatim>\<open>object\<close> and
  \<^verbatim>\<open>collections.abc.Sequence\<close>, are left out of these lists; a namespace only steers the choice
  of the storage attributes, which are distinct for every namespace.
\<close>

definition BaseSerializable :: "'s pyclass" where
  "BaseSerializable =
     \<lparr>cls_name = ''BaseSerializable'', cls_is_serializable = False, cls_meta = None,
      cls_namespace =
        [''__init__'', ''_cached_rlp'', ''as_dict'', ''__iter__'', ''__getitem__'', ''__len__'',
         ''__eq__'', ''__getstate__'', ''_hash_cache'', ''__hash__'', ''__repr__'',
         ''serialize'', ''deserialize'', ''copy'', ''__copy__'', ''__deepcopy__'',
         ''_in_mutable_context'', ''build_changeset''],
      cls_dict = [], cls_under_Serializable = False\<rparr>"

definition Serializable :: "'s pyclass" where
  "Serializable =
     \<lparr>cls_name = ''Serializable'', cls_is_serializable = True, cls_meta = None,
      cls_namespace = cls_namespace (BaseSerializable :: 's pyclass),
      cls_dict = [], cls_under_Serializable = True\<rparr>"

section \<open>Records\<close>

text \<open>
  An instance of a \<^verbatim>\<open>Serializable\<close> class: its class, the attributes that \<^verbatim>\<open>__init__\<close> sets
  on it (its \<^verbatim>\<open>__dict__\<close>) and \<^verbatim>\<open>_hash_cache\<close>, which is \<open>Some h\<close> once \<^verbatim>\<open>__hash__\<close> has put \<open>h\<close>
  into the \<^verbatim>\<open>__dict__\<close> of the instance.
\<close>

record ('a, 's) serializable =
  cls :: "'s pyclass"
  inst_dict :: "'a pyval pydict"
  hash_cache :: "int option"

definition setattr :: "('a, 's) serializable \<Rightarrow> string \<Rightarrow> 'a pyval \<Rightarrow> ('a, 's) serializable" where
  "setattr self attr v = self\<lparr>inst_dict := AList.update attr v (inst_dict self)\<rparr>"

definition getattr :: "('a, 's) serializable \<Rightarrow> string \<Rightarrow> exn + 'a pyval" where
  "getattr self attr =
     (case map_of (inst_dict self) attr of
        None \<Rightarrow> Inl (AttributeError (No_attribute attr))
      | Some v \<Rightarrow> Inr v)"

text \<open>\<^verbatim>\<open>BaseSerializable.__init__\<close>, called on a new instance of class \<open>C\<close>.\<close>

definition serializable_init ::
  "'s pyclass \<Rightarrow> 'a pyval list \<Rightarrow> 'a pyval pydict \<Rightarrow> exn + ('a, 's) serializable" where
  "serializable_init C args kwargs =
     (case cls_meta C of
        None \<Rightarrow> Inl (AttributeError (No_attribute ''_meta''))
      | Some m \<Rightarrow>
          (case (if kwargs \<noteq> [] then merge_kwargs_to_args args kwargs (field_names m) False
                 else Inr args) of
             Inl e \<Rightarrow> Inl e
           | Inr field_values \<Rightarrow>
               if length field_values \<noteq> length (field_names m) then
                 Inl (TypeError (Argument_count_mismatch (length (field_names m))
                        (length field_values) (drop (length field_values) (field_names m))))
               else
                 Inr (fold (\<lambda>(v, attr) self. setattr self attr (make_immutable v))
                        (zip field_values (field_attrs m))
                        \<lparr>cls = C, inst_dict = [], hash_cache = None\<rparr>)))"

text \<open>
  \<^verbatim>\<open>self._meta.what\<close> in a method that runs on an instance after \<^verbatim>\<open>__init__\<close>. The class binds
  \<^verbatim>\<open>_meta\<close> to \<^verbatim>\<open>Meta\<close>, which is no data descriptor, so an entry \<^verbatim>\<open>_meta\<close> of the \<^verbatim>\<open>__dict__\<close> of
  the instance comes first; it is a field value, which has no attribute \<open>what\<close>.
\<close>

definition self_meta :: "('a, 's) serializable \<Rightarrow> string \<Rightarrow> exn + 's meta" where
  "self_meta self what =
     (case map_of (inst_dict self) ''_meta'' of
        Some v \<Rightarrow> Inl (AttributeError (No_attribute what))
      | None \<Rightarrow>
          (case cls_meta (cls self) of
             None \<Rightarrow> Inl (AttributeError (No_attribute ''_meta''))
           | Some m \<Rightarrow> Inr m))"

text \<open>\<^verbatim>\<open>BaseSerializable.__iter__\<close>, run to its end.\<close>

fun getattr_each :: "('a, 's) serializable \<Rightarrow> string list \<Rightarrow> exn + 'a pyval list" where
  "getattr_each self [] = Inr []"
| "getattr_each self (attr # rest) =
     (case getattr self attr of
        Inl e \<Rightarrow> Inl e
      | Inr v \<Rightarrow>
          (case getattr_each self rest of
             Inl e \<Rightarrow> Inl e
           | Inr vs \<Rightarrow> Inr (v # vs)))"

definition serializable_iter :: "('a, 's) serializable \<Rightarrow> exn + 'a pyval list" where
  "serializable_iter self =
     (case self_meta self ''field_attrs'' of
        Inl e \<Rightarrow> Inl e
      | Inr m \<Rightarrow> getattr_each self (field_attrs m))"

text \<open>\<^verbatim>\<open>BaseSerializable.__len__\<close>.\<close>

definition serializable_len :: "('a, 's) serializable \<Rightarrow> exn + nat" where
  "serializable_len self =
     (case self_meta self ''fields'' of
        Inl e \<Rightarrow> Inl e
      | Inr m \<Rightarrow> Inr (length (meta_fields m)))"

text \<open>
  Reading the field \<open>field\<close> of a record: the getter of the property that
  \<^verbatim>\<open>_mk_field_property(field, attr)\<close> builds, for the pairs of
  \<^verbatim>\<open>zip(meta.field_names, meta.field_attrs)\<close>.
\<close>

definition field_props :: "'s meta \<Rightarrow> (string \<times> string) list" where
  "field_props m = zip (field_names m) (field_attrs m)"

definition get_field :: "('a, 's) serializable \<Rightarrow> string \<Rightarrow> exn + 'a pyval" where
  "get_field self field =
     (case cls_meta (cls self) of
        None \<Rightarrow> Inl (AttributeError (No_attribute field))
      | Some m \<Rightarrow>
          (case map_of (field_props m) field of
             None \<Rightarrow> Inl (AttributeError (No_attribute field))
           | Some attr \<Rightarrow> getattr self attr))"

text \<open>
  What the methods below need to know of the objects that this model leaves open: the hash
  of an atom; whether an atom is \<^verbatim>\<open>None\<close>, an \<^verbatim>\<open>int\<close> or something else with a truth value; the
  atom that is a given \<^verbatim>\<open>int\<close>; and the value that reading a name on an instance of a class
  yields when the name is bound by a class body, by the library or to the class \<^verbatim>\<open>Meta\<close>, and
  is neither a field property nor set on the instance.
\<close>

datatype pykind = NoneObj | IntObj int | OtherObj bool

record ('a, 's) world =
  atom_hash :: "'a \<Rightarrow> int"
  atom_kind :: "'a \<Rightarrow> pykind"
  atom_of_int :: "int \<Rightarrow> 'a"
  class_value :: "'s pyclass \<Rightarrow> string \<Rightarrow> 'a pyval"

text \<open>The truth value of a value: an empty sequence, \<^verbatim>\<open>None\<close> and \<open>0\<close> are false.\<close>

definition truth :: "('a, 's) world \<Rightarrow> 'a pyval \<Rightarrow> bool" where
  "truth W v =
     (case v of
        Atom a \<Rightarrow> (case atom_kind W a of NoneObj \<Rightarrow> False | IntObj i \<Rightarrow> i \<noteq> 0 | OtherObj b \<Rightarrow> b)
      | PyList xs \<Rightarrow> xs \<noteq> []
      | PyTuple xs \<Rightarrow> xs \<noteq> [])"

text \<open>
  The interpreter calls a method such as \<^verbatim>\<open>__iter__\<close> by looking the name up on the class of
  the instance. If no class created by the metaclass binds the name, it finds the function
  of \<^verbatim>\<open>BaseSerializable\<close> (the result \<open>None\<close> below). If it finds a field property, it runs the
  getter and calls the field value; otherwise it calls what the class body has bound, or finds
  \<^verbatim>\<open>None\<close>. A value is not a function, so each of these calls raises.
\<close>

definition shadowed :: "('a, 's) serializable \<Rightarrow> string \<Rightarrow> exn option" where
  "shadowed self name =
     (case map_of (cls_dict (cls self)) name of
        None \<Rightarrow> None
      | Some (Prop attr) \<Rightarrow>
          (case getattr self attr of
             Inl e \<Rightarrow> Some e
           | Inr v \<Rightarrow> Some (TypeError (Not_callable name)))
      | Some _ \<Rightarrow> Some (TypeError (Not_callable name)))"

text \<open>
  \<^verbatim>\<open>tuple(self)\<close>: the builtin asks for the iterator (\<^verbatim>\<open>__iter__\<close> is a generator function, the
  call of which runs nothing yet), then for \<^verbatim>\<open>len(self)\<close> as a hint, ignoring a \<^verbatim>\<open>TypeError\<close>
  of that call and no other exception, and then runs the iterator to its end.
\<close>

definition len_hint :: "('a, 's) serializable \<Rightarrow> exn option" where
  "len_hint self =
     (case map_of (cls_dict (cls self)) ''__len__'' of
        None \<Rightarrow> (case serializable_len self of Inl e \<Rightarrow> Some e | Inr n \<Rightarrow> None)
      | Some (Prop attr) \<Rightarrow> (case getattr self attr of Inl e \<Rightarrow> Some e | Inr v \<Rightarrow> None)
      | Some _ \<Rightarrow> None)"

definition py_tuple :: "('a, 's) serializable \<Rightarrow> exn + 'a pyval list" where
  "py_tuple self =
     (case shadowed self ''__iter__'' of
        Some e \<Rightarrow> Inl e
      | None \<Rightarrow>
          (case len_hint self of
             Some e \<Rightarrow> Inl e
           | None \<Rightarrow> serializable_iter self))"

text \<open>
  \<^verbatim>\<open>self._hash_cache\<close>, read: \<^verbatim>\<open>None\<close>, an \<^verbatim>\<open>int\<close> or another value. A field named \<^verbatim>\<open>_hash_cache\<close>
  puts its property, a data descriptor, over the attribute, and reading it yields the field
  value. Otherwise the \<^verbatim>\<open>__dict__\<close> of the instance comes first, then what a class body binds,
  then the \<^verbatim>\<open>None\<close> of \<^verbatim>\<open>BaseSerializable\<close>.
\<close>

datatype 'a cachev = Cache_None | Cache_Int int | Cache_Val "'a pyval"

definition classify :: "('a, 's) world \<Rightarrow> 'a pyval \<Rightarrow> 'a cachev" where
  "classify W v =
     (case v of
        Atom a \<Rightarrow>
          (case atom_kind W a of
             NoneObj \<Rightarrow> Cache_None
           | IntObj i \<Rightarrow> Cache_Int i
           | OtherObj b \<Rightarrow> Cache_Val v)
      | _ \<Rightarrow> Cache_Val v)"

definition read_hash_cache :: "('a, 's) world \<Rightarrow> ('a, 's) serializable \<Rightarrow> exn + 'a cachev" where
  "read_hash_cache W self =
     (case map_of (cls_dict (cls self)) ''_hash_cache'' of
        Some (Prop attr) \<Rightarrow>
          (case getattr self attr of
             Inl e \<Rightarrow> Inl e
           | Inr v \<Rightarrow> Inr (classify W v))
      | bound \<Rightarrow>
          (case hash_cache self of
             Some h \<Rightarrow> Inr (Cache_Int h)
           | None \<Rightarrow>
               (case bound of
                  None \<Rightarrow> Inr Cache_None
                | Some _ \<Rightarrow> Inr (classify W (class_value W (cls self) ''_hash_cache'')))))"

text \<open>
  \<^verbatim>\<open>self._in_mutable_context\<close> as a truth value: the field value if a field has this name,
  what a class body binds, or the \<^verbatim>\<open>False\<close> of \<^verbatim>\<open>BaseSerializable\<close>.
\<close>

definition in_mutable_context :: "('a, 's) world \<Rightarrow> ('a, 's) serializable \<Rightarrow> exn + bool" where
  "in_mutable_context W self =
     (case map_of (cls_dict (cls self)) ''_in_mutable_context'' of
        None \<Rightarrow> Inr False
      | Some (Prop attr) \<Rightarrow>
          (case getattr self attr of
             Inl e \<Rightarrow> Inl e
           | Inr v \<Rightarrow> Inr (truth W v))
      | Some _ \<Rightarrow> Inr (truth W (class_value W (cls self) ''_in_mutable_context'')))"

text \<open>
  \<^verbatim>\<open>self._hash_cache = h\<close>: through the setter of the property if a field has this name (the
  setter of \<^verbatim>\<open>_mk_field_property\<close> raises unless \<^verbatim>\<open>self._in_mutable_context\<close> holds), into the
  \<^verbatim>\<open>__dict__\<close> of the instance otherwise.
\<close>

definition write_hash_cache ::
  "('a, 's) world \<Rightarrow> ('a, 's) serializable \<Rightarrow> int \<Rightarrow> exn + ('a, 's) serializable" where
  "write_hash_cache W self h =
     (case map_of (cls_dict (cls self)) ''_hash_cache'' of
        Some (Prop attr) \<Rightarrow>
          (case in_mutable_context W self of
             Inl e \<Rightarrow> Inl e
           | Inr allowed \<Rightarrow>
               if allowed then Inr (setattr self attr (Atom (atom_of_int W h)))
               else Inl (AttributeError Cannot_set_attribute))
      | _ \<Rightarrow> Inr (self\<lparr>hash_cache := Some h\<rparr>))"

text \<open>
  \<^verbatim>\<open>BaseSerializable.__hash__\<close>: the object that the method returns, and the instance after
  the call.
\<close>

definition serializable_hash ::
  "('a, 's) world \<Rightarrow> ('a, 's) serializable \<Rightarrow> exn + ('a cachev \<times> ('a, 's) serializable)" where
  "serializable_hash W self =
     (case read_hash_cache W self of
        Inl e \<Rightarrow> Inl e
      | Inr Cache_None \<Rightarrow>
          (case py_tuple self of
             Inl e \<Rightarrow> Inl e
           | Inr vs \<Rightarrow>
               (case py_hash (atom_hash W) (PyTuple vs) of
                  Inl e \<Rightarrow> Inl e
                | Inr h \<Rightarrow>
                    (case write_hash_cache W self h of
                       Inl e \<Rightarrow> Inl e
                     | Inr self' \<Rightarrow>
                         (case read_hash_cache W self' of
                            Inl e \<Rightarrow> Inl e
                          | Inr c \<Rightarrow> Inr (c, self')))))
      | Inr c \<Rightarrow> Inr (c, self))"

text \<open>
  The builtin \<^verbatim>\<open>hash(self)\<close> on a record: it calls \<^verbatim>\<open>__hash__\<close> as found on the class, wants an
  \<^verbatim>\<open>int\<close> back, takes an \<^verbatim>\<open>int\<close> that fits a machine word as it is and the hash of any other
  one, and returns \<open>-2\<close> in place of \<open>-1\<close>.
\<close>

definition hash_result :: "int \<Rightarrow> int" where
  "hash_result i =
     (let h = (if - (2 ^ 63) \<le> i \<and> i < 2 ^ 63 then i else long_hash i)
      in if h = - 1 then - 2 else h)"

definition record_hash ::
  "('a, 's) world \<Rightarrow> ('a, 's) serializable \<Rightarrow> exn + (int \<times> ('a, 's) serializable)" where
  "record_hash W self =
     (case shadowed self ''__hash__'' of
        Some e \<Rightarrow> Inl e
      | None \<Rightarrow>
          (case serializable_hash W self of
             Inl e \<Rightarrow> Inl e
           | Inr (Cache_Int i, self') \<Rightarrow> Inr (hash_result i, self')
           | Inr (_, self') \<Rightarrow> Inl (TypeError Hash_not_int)))"

text \<open>
  \<^verbatim>\<open>BaseSerializable.__eq__\<close>. The other operand is a record or some other object; a record is
  an instance of \<^verbatim>\<open>Serializable\<close> if its class is \<^verbatim>\<open>Serializable\<close> or a subclass of it. Both
  operands are returned, since hashing them fills their caches.
\<close>

datatype ('a, 's) pyobj =
    Instance "('a, 's) serializable"
  | Other "'a pyval"

definition serializable_eq ::
  "('a, 's) world \<Rightarrow> ('a, 's) serializable \<Rightarrow> ('a, 's) pyobj
     \<Rightarrow> exn + (bool \<times> ('a, 's) serializable \<times> ('a, 's) pyobj)" where
  "serializable_eq W self other =
     (case other of
        Other v \<Rightarrow> Inr (False, self, other)
      | Instance r \<Rightarrow>
          if \<not> cls_under_Serializable (cls r) then Inr (False, self, other)
          else
            (case record_hash W self of
               Inl e \<Rightarrow> Inl e
             | Inr (h1, self') \<Rightarrow>
                 (case record_hash W r of
                    Inl e \<Rightarrow> Inl e
                  | Inr (h2, r') \<Rightarrow> Inr (h1 = h2, self', Instance r'))))"

text \<open>\<^verbatim>\<open>self == other\<close> for a record \<open>self\<close>: the call of \<^verbatim>\<open>__eq__\<close> as found on its class.\<close>

definition record_eq ::
  "('a, 's) world \<Rightarrow> ('a, 's) serializable \<Rightarrow> ('a, 's) pyobj
     \<Rightarrow> exn + (bool \<times> ('a, 's) serializable \<times> ('a, 's) pyobj)" where
  "record_eq W self other =
     (case shadowed self ''__eq__'' of
        Some e \<Rightarrow> Inl e
      | None \<Rightarrow> serializable_eq W self other)"

text \<open>
  \<^verbatim>\<open>getattr(self, name)\<close> on a record, as \<^verbatim>\<open>__getitem__\<close> with a string index and the descriptor
  of a changeset call it: a field property of the class comes first and reads its storage
  attribute; then the \<^verbatim>\<open>__dict__\<close> of the instance; then what a class body, the metaclass
  (\<^verbatim>\<open>_meta\<close>) or the library binds to the name.
\<close>

definition getattr_name :: "('a, 's) world \<Rightarrow> ('a, 's) serializable \<Rightarrow> string \<Rightarrow> exn + 'a pyval"
  where
  "getattr_name W self name =
     (case map_of (cls_dict (cls self)) name of
        Some (Prop attr) \<Rightarrow> getattr self attr
      | bound \<Rightarrow>
          (case map_of (inst_dict self) name of
             Some v \<Rightarrow> Inr v
           | None \<Rightarrow>
               (case (if name = ''_hash_cache'' then hash_cache self else None) of
                  Some h \<Rightarrow> Inr (Atom (atom_of_int W h))
                | None \<Rightarrow>
                    if bound \<noteq> None \<or> name \<in> set (cls_namespace (cls self))
                    then Inr (class_value W (cls self) name)
                    else Inl (AttributeError (No_attribute name)))))"

text \<open>\<^verbatim>\<open>self[name]\<close> for a string \<open>name\<close>: the call of \<^verbatim>\<open>__getitem__\<close> as found on the class.\<close>

definition record_getitem ::
  "('a, 's) world \<Rightarrow> ('a, 's) serializable \<Rightarrow> string \<Rightarrow> exn + 'a pyval" where
  "record_getitem W self name =
     (case shadowed self ''__getitem__'' of
        Some e \<Rightarrow> Inl e
      | None \<Rightarrow> getattr_name W self name)"

text \<open>
  The call \<^verbatim>\<open>C(*args, **kwargs)\<close> of a class: \<^verbatim>\<open>__new__\<close> and \<^verbatim>\<open>__init__\<close> as found on the class,
  the latter on the new instance, whose \<^verbatim>\<open>__dict__\<close> is empty.
\<close>

definition construct ::
  "'s pyclass \<Rightarrow> 'a pyval list \<Rightarrow> 'a pyval pydict \<Rightarrow> exn + ('a, 's) serializable" where
  "construct C args kwargs =
     (case map_of (cls_dict C) ''__new__'' of
        Some _ \<Rightarrow> Inl (TypeError (Not_callable ''__new__''))
      | None \<Rightarrow>
          (case shadowed (\<lparr>cls = C, inst_dict = [], hash_cache = None\<rparr> :: ('a, 's) serializable)
                  ''__init__'' of
             Some e \<Rightarrow> Inl e
           | None \<Rightarrow> serializable_init C args kwargs))"

section \<open>Changesets\<close>

datatype ChangesetState = INITIALIZED | OPEN | CLOSED

text \<open>
  An instance of a changeset class: the attributes \<^verbatim>\<open>__original__\<close>, \<^verbatim>\<open>__state__\<close> and \<^verbatim>\<open>__diff__\<close>
  that \<^verbatim>\<open>BaseChangeset.__init__\<close> sets on it, and the names under which its class, which
  \<^verbatim>\<open>Changeset\<close> builds for it, holds a \<^verbatim>\<open>ChangesetField\<close>.
\<close>

record ('a, 's) changeset =
  cs_original :: "('a, 's) serializable"
  cs_state :: ChangesetState
  cs_diff :: "'a pyval pydict"
  cs_names :: "string list"

text \<open>
  \<^verbatim>\<open>BaseChangeset.__init__\<close> on a new instance of a class with a \<^verbatim>\<open>ChangesetField\<close> under each of
  \<open>names\<close>; \<^verbatim>\<open>changes or {}\<close> takes an absent or empty mapping to \<^verbatim>\<open>{}\<close>. The three assignments
  run in the order of the source. An assignment to a name that has a descriptor runs
  \<^verbatim>\<open>ChangesetField.__set__\<close>, which reads \<^verbatim>\<open>instance.__state__\<close>: this is \<^verbatim>\<open>None\<close> or \<^verbatim>\<open>INITIALIZED\<close>
  by then, so the assignment is refused, unless \<^verbatim>\<open>__state__\<close> has a descriptor itself, whose
  \<^verbatim>\<open>__get__\<close> then reads \<^verbatim>\<open>instance.__state__\<close> without end.
\<close>

definition changeset_init ::
  "string list \<Rightarrow> ('a, 's) serializable \<Rightarrow> 'a pyval pydict option \<Rightarrow> exn + ('a, 's) changeset"
  where
  "changeset_init names obj changes =
     (if ''__original__'' \<in> set names then
        Inl (if ''__state__'' \<in> set names then RecursionError
             else AttributeError Changeset_not_active)
      else if ''__state__'' \<in> set names then Inl RecursionError
      else if ''__diff__'' \<in> set names then Inl (AttributeError Changeset_not_active)
      else
        Inr \<lparr>cs_original = obj, cs_state = INITIALIZED,
             cs_diff = (case changes of None \<Rightarrow> [] | Some d \<Rightarrow> d), cs_names = names\<rparr>)"

text \<open>
  \<^verbatim>\<open>ChangesetField.__get__\<close> and \<^verbatim>\<open>__set__\<close> of the descriptor of \<open>field\<close>, on an instance of the
  changeset class. (Read on the class itself, where \<^verbatim>\<open>instance is None\<close>, the descriptor
  returns itself.) The instance is one that \<^verbatim>\<open>BaseChangeset.__init__\<close> has set up, so
  \<^verbatim>\<open>__original__\<close>, \<^verbatim>\<open>__state__\<close> and \<^verbatim>\<open>__diff__\<close> are attributes of the instance and not descriptors.
\<close>

definition changeset_field_get ::
  "('a, 's) world \<Rightarrow> string \<Rightarrow> ('a, 's) changeset \<Rightarrow> exn + 'a pyval" where
  "changeset_field_get W field instance =
     (if cs_state instance \<noteq> OPEN then Inl (AttributeError Changeset_not_active)
      else
        (case map_of (cs_diff instance) field of
           Some v \<Rightarrow> Inr v
         | None \<Rightarrow> getattr_name W (cs_original instance) field))"

definition changeset_field_set ::
  "string \<Rightarrow> ('a, 's) changeset \<Rightarrow> 'a pyval \<Rightarrow> exn + ('a, 's) changeset" where
  "changeset_field_set field instance v =
     (if cs_state instance \<noteq> OPEN then Inl (AttributeError Changeset_not_active)
      else Inr (instance\<lparr>cs_diff := AList.update field v (cs_diff instance)\<rparr>))"

text \<open>
  The lookup of a method name such as \<^verbatim>\<open>close\<close> on a changeset for a call: a \<^verbatim>\<open>ChangesetField\<close>
  of that name is a data descriptor and comes before the method of \<^verbatim>\<open>BaseChangeset\<close>; its
  \<^verbatim>\<open>__get__\<close> runs and the value it returns is called, which raises. The result \<open>None\<close> stands
  for the method of \<^verbatim>\<open>BaseChangeset\<close>.
\<close>

definition cs_shadowed :: "('a, 's) world \<Rightarrow> ('a, 's) changeset \<Rightarrow> string \<Rightarrow> exn option" where
  "cs_shadowed W self name =
     (if name \<in> set (cs_names self) then
        (case changeset_field_get W name self of
           Inl e \<Rightarrow> Some e
         | Inr v \<Rightarrow> Some (TypeError (Not_callable name)))
      else None)"

text \<open>
  \<^verbatim>\<open>self.build_rlp()\<close>: the dict comprehension, then the call of the class of the original.
  The names are those of \<^verbatim>\<open>self.__original__._meta\<close>, read on the original; for each name
  \<^verbatim>\<open>self.__original__[name]\<close> is evaluated, as the default, before the staged edits are asked.
\<close>

fun field_kwargs_of ::
  "('a, 's) world \<Rightarrow> ('a, 's) changeset \<Rightarrow> string list \<Rightarrow> exn + (string \<times> 'a pyval) list" where
  "field_kwargs_of W self [] = Inr []"
| "field_kwargs_of W self (name # rest) =
     (case record_getitem W (cs_original self) name of
        Inl e \<Rightarrow> Inl e
      | Inr dflt \<Rightarrow>
          (case field_kwargs_of W self rest of
             Inl e \<Rightarrow> Inl e
           | Inr kvs \<Rightarrow>
               Inr ((name, case map_of (cs_diff self) name of Some v \<Rightarrow> v | None \<Rightarrow> dflt)
                    # kvs)))"

definition build_rlp :: "('a, 's) world \<Rightarrow> ('a, 's) changeset \<Rightarrow> exn + ('a, 's) serializable"
  where
  "build_rlp W self =
     (case cs_shadowed W self ''build_rlp'' of
        Some e \<Rightarrow> Inl e
      | None \<Rightarrow>
          if cs_state self = OPEN then
            (case self_meta (cs_original self) ''field_names'' of
               Inl e \<Rightarrow> Inl e
             | Inr m \<Rightarrow>
                 (case field_kwargs_of W self (field_names m) of
                    Inl e \<Rightarrow> Inl e
                  | Inr kvs \<Rightarrow> construct (cls (cs_original self)) [] (dict_of_pairs kvs)))
          else Inl (ValueError Cannot_open_not_OPEN))"

text \<open>\<^verbatim>\<open>self.open()\<close> and \<^verbatim>\<open>self.close()\<close>.\<close>

definition changeset_open :: "('a, 's) world \<Rightarrow> ('a, 's) changeset \<Rightarrow> exn + ('a, 's) changeset"
  where
  "changeset_open W self =
     (case cs_shadowed W self ''open'' of
        Some e \<Rightarrow> Inl e
      | None \<Rightarrow>
          if cs_state self = INITIALIZED then Inr (self\<lparr>cs_state := OPEN\<rparr>)
          else Inl (ValueError Cannot_open_not_INITIALIZED))"

definition changeset_close :: "('a, 's) world \<Rightarrow> ('a, 's) changeset \<Rightarrow> exn + ('a, 's) changeset"
  where
  "changeset_close W self =
     (case cs_shadowed W self ''close'' of
        Some e \<Rightarrow> Inl e
      | None \<Rightarrow>
          if cs_state self = OPEN then Inr (self\<lparr>cs_state := CLOSED\<rparr>)
          else Inl (ValueError Cannot_close_not_OPEN))"

text \<open>\<^verbatim>\<open>self.commit()\<close>: the new record and the changeset after the call.\<close>

definition commit ::
  "('a, 's) world \<Rightarrow> ('a, 's) changeset
     \<Rightarrow> exn + (('a, 's) serializable \<times> ('a, 's) changeset)" where
  "commit W self =
     (case cs_shadowed W self ''commit'' of
        Some e \<Rightarrow> Inl e
      | None \<Rightarrow>
          (case build_rlp W self of
             Inl e \<Rightarrow> Inl e
           | Inr obj \<Rightarrow>
               (case changeset_close W self of
                  Inl e \<Rightarrow> Inl e
                | Inr self' \<Rightarrow> Inr (obj, self'))))"

text \<open>
  \<^verbatim>\<open>Changeset\<close>: one \<^verbatim>\<open>ChangesetField\<close> for each name of \<^verbatim>\<open>obj._meta.field_names\<close>, read on the
  record, in the namespace of a new subclass of \<^verbatim>\<open>BaseChangeset\<close>, and the call of that class.
  The call looks up \<^verbatim>\<open>__new__\<close> on the class, where a descriptor returns itself and cannot be
  called, and \<^verbatim>\<open>__init__\<close> on the new instance, where \<^verbatim>\<open>ChangesetField.__get__\<close> reads
  \<^verbatim>\<open>instance.__state__\<close> as \<^verbatim>\<open>BaseChangeset.__init__\<close> does above.
\<close>

definition Changeset ::
  "('a, 's) serializable \<Rightarrow> 'a pyval pydict \<Rightarrow> exn + ('a, 's) changeset" where
  "Changeset obj changes =
     (case self_meta obj ''field_names'' of
        Inl e \<Rightarrow> Inl e
      | Inr m \<Rightarrow>
          (let names = field_names m in
           if ''__new__'' \<in> set names then Inl (TypeError (Not_callable ''__new__''))
           else if ''__init__'' \<in> set names then
             Inl (if ''__state__'' \<in> set names then RecursionError
                  else AttributeError Changeset_not_active)
           else changeset_init names obj (Some changes)))"

text \<open>\<^verbatim>\<open>self.build_changeset(*args, **kwargs)\<close> on a record.\<close>

definition build_changeset ::
  "('a, 's) serializable \<Rightarrow> 'a pyval list \<Rightarrow> 'a pyval pydict \<Rightarrow> exn + ('a, 's) changeset" where
  "build_changeset self args kwargs =
     (case shadowed self ''build_changeset'' of
        Some e \<Rightarrow> Inl e
      | None \<Rightarrow>
          (case self_meta self ''field_names'' of
             Inl e \<Rightarrow> Inl e
           | Inr m \<Rightarrow>
               (case merge_args_to_kwargs args kwargs (field_names m) True of
                  Inl e \<Rightarrow> Inl e
                | Inr args_as_kwargs \<Rightarrow> Changeset self args_as_kwargs)))"

section \<open>Serialization errors (\<^verbatim>\<open>rlp/exceptions.py\<close>) and \<^verbatim>\<open>serialize\<close>\<close>

text \<open>
  The wire items that a sedes produces, and the exceptions that can leave a \<^verbatim>\<open>serialize\<close>
  call. \<open>'o\<close> is the type of the object under serialization. The arguments of
  \<open>ListSerializationError\<close> are its message, \<^verbatim>\<open>obj\<close>, \<^verbatim>\<open>element_exception\<close> and \<^verbatim>\<open>index\<close>; those
  of \<open>ObjectSerializationError\<close> are its message, \<^verbatim>\<open>obj\<close>, \<^verbatim>\<open>list_exception\<close> and \<^verbatim>\<open>field\<close>.
\<close>

datatype wire = Leaf "8 word list" | Seq "wire list"

datatype 'o ser_exn =
    Builtin exn
  | SerializationError msg 'o
  | ListSerializationError msg 'o "'o ser_exn option" "int option"
  | ObjectSerializationError msg 'o "'o ser_exn option" "string option"

text \<open>\<^verbatim>\<open>str(e)\<close>: the message of the exception.\<close>

fun str_of :: "'o ser_exn \<Rightarrow> msg" where
  "str_of (Builtin (TypeError m)) = m"
| "str_of (Builtin (ValueError m)) = m"
| "str_of (Builtin (AttributeError m)) = m"
| "str_of (Builtin (KeyError k)) = Text k"
| "str_of (Builtin (IndexError m)) = m"
| "str_of (Builtin AssertionError) = Text []"
| "str_of (Builtin RecursionError) = Text ''maximum recursion depth exceeded''"
| "str_of (SerializationError m obj) = m"
| "str_of (ListSerializationError m obj element_exception index) = m"
| "str_of (ObjectSerializationError m obj list_exception field) = m"

text \<open>
  Indexing a tuple with \<^verbatim>\<open>index\<close>: \<^verbatim>\<open>None\<close> is no index, a negative index counts from the end,
  an index out of range raises.
\<close>

definition py_index :: "'x list \<Rightarrow> int option \<Rightarrow> exn + 'x" where
  "py_index xs index =
     (case index of
        None \<Rightarrow> Inl (TypeError Bad_index)
      | Some i \<Rightarrow>
          (let n = int (length xs); j = (if i < 0 then n + i else i)
           in if 0 \<le> j \<and> j < n then Inr (xs ! nat j) else Inl (IndexError Bad_index)))"

text \<open>
  The two constructors; the result is the exception that \<^verbatim>\<open>raise Cls(...)\<close> raises, which is
  an \<^verbatim>\<open>AssertionError\<close> when an \<^verbatim>\<open>assert\<close> of the constructor fails.
\<close>

definition ListSerializationError_init ::
  "msg option \<Rightarrow> 'o \<Rightarrow> 'o ser_exn option \<Rightarrow> int option \<Rightarrow> 'o ser_exn" where
  "ListSerializationError_init message obj element_exception index =
     (case message of
        Some m \<Rightarrow> ListSerializationError m obj element_exception index
      | None \<Rightarrow>
          (case index of
             None \<Rightarrow> Builtin AssertionError
           | Some i \<Rightarrow>
               (case element_exception of
                  None \<Rightarrow> Builtin AssertionError
                | Some e \<Rightarrow>
                    ListSerializationError (Element_at_index i (str_of e)) obj
                      element_exception index)))"

definition ObjectSerializationError_init ::
  "msg option \<Rightarrow> 'o \<Rightarrow> 's pyclass option \<Rightarrow> 'o ser_exn option \<Rightarrow> 'o ser_exn" where
  "ObjectSerializationError_init message obj sedes_cls list_exception =
     (case message of
        Some m \<Rightarrow> ObjectSerializationError m obj list_exception None
      | None \<Rightarrow>
          (case list_exception of
             None \<Rightarrow> Builtin AssertionError
           | Some (ListSerializationError lm lobj element_exception index) \<Rightarrow>
               (case element_exception of
                  None \<Rightarrow>
                    ObjectSerializationError
                      (Underlying_list
                         (str_of (ListSerializationError lm lobj element_exception index)))
                      obj list_exception None
                | Some e \<Rightarrow>
                    (case sedes_cls of
                       None \<Rightarrow> Builtin AssertionError
                     | Some C \<Rightarrow>
                         (case cls_meta C of
                            None \<Rightarrow> Builtin (AttributeError (No_attribute ''_meta''))
                          | Some m \<Rightarrow>
                              (case py_index (field_names m) index of
                                 Inl x \<Rightarrow> Builtin x
                               | Inr field \<Rightarrow>
                                   ObjectSerializationError (Field_failed field (str_of e))
                                     obj list_exception (Some field)))))
           | Some _ \<Rightarrow> Builtin (AttributeError (No_attribute ''element_exception''))))"

text \<open>
  \<^verbatim>\<open>BaseSerializable.serialize\<close>. \<^verbatim>\<open>cls._meta.sedes\<close> is the \<^verbatim>\<open>List\<close> sedes over the element sedes
  of the schema; its \<^verbatim>\<open>serialize\<close> method is the parameter \<open>list_serialize\<close>, since the class
  \<^verbatim>\<open>List\<close> of \<^verbatim>\<open>rlp/sedes/lists.py\<close> is not among the sources.
\<close>

definition serialize ::
  "('s list \<Rightarrow> 'o \<Rightarrow> 'o ser_exn + wire) \<Rightarrow> 's pyclass \<Rightarrow> 'o \<Rightarrow> 'o ser_exn + wire" where
  "serialize list_serialize C obj =
     (case cls_meta C of
        None \<Rightarrow> Inl (Builtin (AttributeError (No_attribute ''_meta'')))
      | Some m \<Rightarrow>
          (case list_serialize (sedes m) obj of
             Inr w \<Rightarrow> Inr w
           | Inl (ListSerializationError lm lobj element_exception index) \<Rightarrow>
               Inl (ObjectSerializationError_init None obj (Some C)
                      (Some (ListSerializationError lm lobj element_exception index)))
           | Inl e \<Rightarrow> Inl e))"

text \<open>
  Modelled from the spec: \<^verbatim>\<open>ListSedes.serialize\<close> (the class \<^verbatim>\<open>List\<close> of
  \<^verbatim>\<open>rlp/sedes/lists.py\<close>, which \<^verbatim>\<open>serializable.py\<close> imports, is missing). If the number of
  values differs from the arity, it fails with a generic list-serialization error without
  an index. Otherwise it serializes position by position with the sedes of that position;
  the first failure is wrapped into a list-serialization error that carries the index and
  the cause, and the loop stops. The results form a wire sequence. \<open>ser\<close> is the
  \<^verbatim>\<open>serialize\<close> method of an element sedes.
\<close>

fun ListSedes_loop ::
  "('s \<Rightarrow> 'v \<Rightarrow> 'o ser_exn + wire) \<Rightarrow> 'o \<Rightarrow> nat \<Rightarrow> 's list \<Rightarrow> 'v list \<Rightarrow> 'o ser_exn + wire list"
  where
  "ListSedes_loop ser obj i (s # ss) (v # vs) =
     (case ser s v of
        Inl e \<Rightarrow> Inl (ListSerializationError_init None obj (Some e) (Some (int i)))
      | Inr w \<Rightarrow>
          (case ListSedes_loop ser obj (Suc i) ss vs of
             Inl e \<Rightarrow> Inl e
           | Inr ws \<Rightarrow> Inr (w # ws)))"
| "ListSedes_loop ser obj i ss vs = Inr []"

text \<open>
  Modelled from the spec: \<^verbatim>\<open>ListSedes.serialize\<close> on the values \<open>vals\<close> of the object \<open>obj\<close>
  (\<^verbatim>\<open>rlp/sedes/lists.py\<close> is missing): the arity check, then the loop above from position 0.
\<close>

definition ListSedes_serialize ::
  "('s \<Rightarrow> 'v \<Rightarrow> 'o ser_exn + wire) \<Rightarrow> 's list \<Rightarrow> 'o \<Rightarrow> 'v list \<Rightarrow> 'o ser_exn + wire" where
  "ListSedes_serialize ser element_sedes obj vals =
     (if length vals \<noteq> length element_sedes then
        Inl (ListSerializationError_init (Some (Text ''length mismatch'')) obj None None)
      else
        (case ListSedes_loop ser obj 0 element_sedes vals of
           Inl e \<Rightarrow> Inl e
         | Inr ws \<Rightarrow> Inr (Seq ws)))"

text \<open>
  The items of an object: those of the iteration of a record or of a sequence; an object
  that is no sequence cannot be iterated.
\<close>

definition items_of :: "('a, 's) pyobj \<Rightarrow> exn + 'a pyval list" where
  "items_of obj =
     (case obj of
        Instance r \<Rightarrow> serializable_iter r
      | Other (PyList vals) \<Rightarrow> Inr vals
      | Other (PyTuple vals) \<Rightarrow> Inr vals
      | Other (Atom a) \<Rightarrow> Inl (TypeError (Text ''not a sequence'')))"

text \<open>
  Modelled from the spec: \<^verbatim>\<open>ListSedes.serialize\<close> applied to an object, whose values are its
  items (\<^verbatim>\<open>rlp/sedes/lists.py\<close> is missing).
\<close>

definition ListSedes_serialize_obj ::
  "('s \<Rightarrow> 'a pyval \<Rightarrow> ('a, 's) pyobj ser_exn + wire) \<Rightarrow> 's list
     \<Rightarrow> ('a, 's) pyobj \<Rightarrow> ('a, 's) pyobj ser_exn + wire" where
  "ListSedes_serialize_obj ser element_sedes obj =
     (case items_of obj of
        Inl e \<Rightarrow> Inl (Builtin e)
      | Inr vals \<Rightarrow> ListSedes_serialize ser element_sedes obj vals)"

section \<open>Notions used to state the properties\<close>

text \<open>
  A schema as the metaclass builds it: unique field names that are identifiers, one storage
  attribute per field, all distinct, and the names and element sedes read off the fields.
\<close>

definition wf_meta :: "'s meta \<Rightarrow> bool" where
  "wf_meta m \<longleftrightarrow>
     distinct (field_names m) \<and> distinct (field_attrs m)
     \<and> length (field_attrs m) = length (field_names m)
     \<and> field_names m = map fst (meta_fields m) \<and> sedes m = map snd (meta_fields m)
     \<and> list_all is_valid_identifier (field_names m)"

text \<open>
  The value that a constructor call passes for the field at position \<open>i\<close>: the positional
  value at \<open>i\<close> if there is one, otherwise the named value of that field, if any.
\<close>

definition passed_value :: "'v list \<Rightarrow> 'v pydict \<Rightarrow> string list \<Rightarrow> nat \<Rightarrow> 'v option" where
  "passed_value args kwargs names i =
     (if i < length args then Some (args ! i) else map_of kwargs (names ! i))"

text \<open>
  A value is deeply immutable if no list occurs in it at any depth. In a value without a
  list inside a tuple, every list is reached from the top through lists only.
\<close>

fun deeply_immutable :: "'a pyval \<Rightarrow> bool" where
  "deeply_immutable (Atom a) = True"
| "deeply_immutable (PyList xs) = False"
| "deeply_immutable (PyTuple xs) = list_all deeply_immutable xs"

fun no_list_in_tuple :: "'a pyval \<Rightarrow> bool" where
  "no_list_in_tuple (Atom a) = True"
| "no_list_in_tuple (PyList xs) = list_all no_list_in_tuple xs"
| "no_list_in_tuple (PyTuple xs) = list_all deeply_immutable xs"

text \<open>
  \<open>n\<close> successive calls of \<^verbatim>\<open>hash(self)\<close>: the values returned, in order, and the instance
  after the last call.
\<close>

fun hash_calls ::
  "('a, 's) world \<Rightarrow> nat \<Rightarrow> ('a, 's) serializable
     \<Rightarrow> exn + (int list \<times> ('a, 's) serializable)"
  where
  "hash_calls W 0 self = Inr ([], self)"
| "hash_calls W (Suc n) self =
     (case record_hash W self of
        Inl e \<Rightarrow> Inl e
      | Inr (h, self') \<Rightarrow>
          (case hash_calls W n self' of
             Inl e \<Rightarrow> Inl e
           | Inr (hs, self'') \<Rightarrow> Inr (h # hs, self'')))"

text \<open>
  A class is plain if neither it nor a parent class created by the metaclass binds, as a
  field or in its body, the name \<^verbatim>\<open>_hash_cache\<close> or a name that begins with two underscores;
  the \<^verbatim>\<open>__module__\<close>, \<^verbatim>\<open>__qualname__\<close> and \<^verbatim>\<open>__doc__\<close> of a class body are let through. Names
  that begin with two underscores are those to which the interpreter gives a meaning of
  its own.
\<close>

definition dunder :: "string \<Rightarrow> bool" where
  "dunder n = (take 2 n = ''__'')"

definition plain_class :: "'s pyclass \<Rightarrow> bool" where
  "plain_class C =
     list_all (\<lambda>(n, a). n \<noteq> ''_hash_cache''
                 \<and> (dunder n \<longrightarrow>
                      a = Body_attr \<and> n \<in> set [''__module__'', ''__qualname__'', ''__doc__'']))
       (cls_dict C)"

text \<open>
  The fields of a class are bound if the class holds, under the name of each field, the
  property generated for it: no class body binds the name of a field, and no field is
  named \<^verbatim>\<open>_meta\<close>.
\<close>

definition fields_bound :: "'s pyclass \<Rightarrow> bool" where
  "fields_bound C =
     (case cls_meta C of
        None \<Rightarrow> True
      | Some m \<Rightarrow>
          list_all (\<lambda>(field, attr). map_of (cls_dict C) field = Some (Prop attr))
            (field_props m))"

section \<open>Example classes and records\<close>

text \<open>
  \<^verbatim>\<open>class A(Serializable): fields = (('x', s),)\<close> and a class \<^verbatim>\<open>B\<close> with the same body; the sedes
  play no role in them and are of type \<open>unit\<close>.
\<close>

definition body_x :: "unit class_body" where
  "body_x = \<lparr>declared_fields = Some [(''x'', ())], other_attrs = []\<rparr>"

definition schema_x :: "unit meta" where
  "schema_x =
     \<lparr>meta_fields = [(''x'', ())], field_names = [''x''], field_attrs = [''_x''], sedes = [()]\<rparr>"

definition class_A :: "unit pyclass" where
  "class_A =
     \<lparr>cls_name = ''A'', cls_is_serializable = True, cls_meta = Some schema_x,
      cls_namespace = [''x'', ''_meta''] @ cls_namespace (Serializable :: unit pyclass),
      cls_dict = [(''_meta'', Meta_attr), (''x'', Prop ''_x'')],
      cls_under_Serializable = True\<rparr>"

definition class_B :: "unit pyclass" where
  "class_B =
     \<lparr>cls_name = ''B'', cls_is_serializable = True, cls_meta = Some schema_x,
      cls_namespace = [''x'', ''_meta''] @ cls_namespace (Serializable :: unit pyclass),
      cls_dict = [(''_meta'', Meta_attr), (''x'', Prop ''_x'')],
      cls_under_Serializable = True\<rparr>"

text \<open>The instance of class \<open>C\<close> with the single storage attribute \<^verbatim>\<open>_x\<close> holding \<open>v\<close>.\<close>

definition instance_x :: "unit pyclass \<Rightarrow> int pyval \<Rightarrow> (int, unit) serializable" where
  "instance_x C v = \<lparr>cls = C, inst_dict = [(''_x'', v)], hash_cache = None\<rparr>"

text \<open>
  A changeset over the record \<^verbatim>\<open>A(x=1)\<close>, in state \<open>st\<close> and with the staged edits \<open>d\<close>.
\<close>

definition changeset_x :: "ChangesetState \<Rightarrow> int pyval pydict \<Rightarrow> (int, unit) changeset" where
  "changeset_x st d =
     \<lparr>cs_original = instance_x class_A (Atom 1), cs_state = st, cs_diff = d, cs_names = [''x'']\<rparr>"

text \<open>
  A world for the examples: the atoms are the Python \<^verbatim>\<open>int\<close>s, and every name that a class body
  of the examples binds is bound to \<open>5\<close>.
\<close>

definition int_world :: "(int, unit) world" where
  "int_world =
     \<lparr>atom_hash = long_hash, atom_kind = IntObj, atom_of_int = (\<lambda>i. i),
      class_value = (\<lambda>C name. Atom 5)\<rparr>"

text \<open>
  Four more classes with one field, each directly under \<^verbatim>\<open>Serializable\<close>:
  \<^verbatim>\<open>class M(Serializable): fields = (('meta', s),)\<close>, whose field is stored under \<^verbatim>\<open>_meta\<close>;
  \<^verbatim>\<open>class H(Serializable): fields = (('_hash_cache', s),)\<close>;
  \<^verbatim>\<open>class K(Serializable): fields = (('close', s),)\<close>; and
  \<^verbatim>\<open>class X5(Serializable): fields = (('x', s),); x = 5\<close>, whose body binds the name of its
  field.
\<close>

definition one_field :: "string \<Rightarrow> string list \<Rightarrow> unit class_body" where
  "one_field f others = \<lparr>declared_fields = Some [(f, ())], other_attrs = others\<rparr>"

definition one_field_class :: "string \<Rightarrow> string \<Rightarrow> string \<Rightarrow> string list \<Rightarrow> unit pyclass" where
  "one_field_class name f attr others =
     \<lparr>cls_name = name, cls_is_serializable = True,
      cls_meta = Some \<lparr>meta_fields = [(f, ())], field_names = [f], field_attrs = [attr],
                       sedes = [()]\<rparr>,
      cls_namespace = [f] @ others @ [''_meta''] @ cls_namespace (Serializable :: unit pyclass),
      cls_dict = (''_meta'', Meta_attr) # map (\<lambda>k. (k, Body_attr)) others @ [(f, Prop attr)],
      cls_under_Serializable = True\<rparr>"

definition class_M :: "unit pyclass" where
  "class_M = one_field_class ''M'' ''meta'' ''_meta'' []"

definition class_H :: "unit pyclass" where
  "class_H = one_field_class ''H'' ''_hash_cache'' ''__hash_cache'' []"

definition class_K :: "unit pyclass" where
  "class_K = one_field_class ''K'' ''close'' ''_close'' []"

definition class_X5 :: "unit pyclass" where
  "class_X5 = one_field_class ''X5'' ''x'' ''_x'' [''x'']"

text \<open>The instance of class \<open>C\<close> with the single storage attribute \<open>attr\<close> holding \<open>v\<close>.\<close>

definition instance_of :: "unit pyclass \<Rightarrow> string \<Rightarrow> int pyval \<Rightarrow> (int, unit) serializable" where
  "instance_of C attr v = \<lparr>cls = C, inst_dict = [(attr, v)], hash_cache = None\<rparr>"

text \<open>
  \<^verbatim>\<open>class ABC(Serializable): fields = (('a', ok), ('b', failing), ('c', ok))\<close>, with sedes
  that are named by strings: the element sedes \<^verbatim>\<open>failing\<close> rejects every value, any other
  one serializes every value to an empty byte string. \<open>instance_abc\<close> is \<^verbatim>\<open>ABC(1, 2, 3)\<close>.
\<close>

definition body_abc :: "string class_body" where
  "body_abc =
     \<lparr>declared_fields = Some [(''a'', ''ok''), (''b'', ''failing''), (''c'', ''ok'')],
      other_attrs = []\<rparr>"

definition schema_abc :: "string meta" where
  "schema_abc =
     \<lparr>meta_fields = [(''a'', ''ok''), (''b'', ''failing''), (''c'', ''ok'')],
      field_names = [''a'', ''b'', ''c''], field_attrs = [''_a'', ''_b'', ''_c''],
      sedes = [''ok'', ''failing'', ''ok'']\<rparr>"

definition class_ABC :: "string pyclass" where
  "class_ABC =
     \<lparr>cls_name = ''ABC'', cls_is_serializable = True, cls_meta = Some schema_abc,
      cls_namespace =
        [''a'', ''b'', ''c'', ''_meta''] @ cls_namespace (Serializable :: string pyclass),
      cls_dict =
        [(''_meta'', Meta_attr), (''a'', Prop ''_a''), (''b'', Prop ''_b''), (''c'', Prop ''_c'')],
      cls_under_Serializable = True\<rparr>"

definition instance_abc :: "(int, string) serializable" where
  "instance_abc =
     \<lparr>cls = class_ABC,
      inst_dict = [(''_a'', Atom 1), (''_b'', Atom 2), (''_c'', Atom 3)],
      hash_cache = None\<rparr>"

definition example_ser ::
  "string \<Rightarrow> int pyval \<Rightarrow> (int, string) pyobj ser_exn + wire" where
  "example_ser s v =
     (if s = ''failing'' then Inl (SerializationError (Text ''cannot serialize'') (Other v))
      else Inr (Leaf []))"

section \<open>Properties\<close>

subsection \<open>Class creation\<close>

declare fresh_attr.simps [simp del]

lemma new_class_Serializable:
  "new_class ''Serializable'' [BaseSerializable] \<lparr>declared_fields = None, other_attrs = []\<rparr>
   = Inr ((Serializable :: 's pyclass)\<lparr>cls_under_Serializable := False\<rparr>)"
  by (simp add: new_class_def BaseSerializable_def Serializable_def implicit_hash_def)

lemma fresh_attr_notin: "fresh_attr field namespace \<notin> set namespace"
proof (induction field namespace rule: fresh_attr.induct)
  case (1 field namespace)
  then show ?case
    by (subst fresh_attr.simps) (simp add: Let_def)
qed

lemma mk_field_attrs_loop_length: "length (mk_field_attrs_loop names ns) = length names"
  by (induction names arbitrary: ns) (simp_all add: Let_def)

lemma mk_field_attrs_loop_disjoint: "set (mk_field_attrs_loop names ns) \<inter> set ns = {}"
proof (induction names arbitrary: ns)
  case Nil
  then show ?case by simp
next
  case (Cons f names)
  have "set (mk_field_attrs_loop names (fresh_attr f ns # ns)) \<inter> set (fresh_attr f ns # ns) = {}"
    by (rule Cons.IH)
  then show ?case
    using fresh_attr_notin [of f ns] by (auto simp: Let_def)
qed

lemma mk_field_attrs_loop_distinct: "distinct (mk_field_attrs_loop names ns)"
proof (induction names arbitrary: ns)
  case Nil
  then show ?case by simp
next
  case (Cons f names)
  have "set (mk_field_attrs_loop names (fresh_attr f ns # ns)) \<inter> set (fresh_attr f ns # ns) = {}"
    by (rule mk_field_attrs_loop_disjoint)
  then have "fresh_attr f ns \<notin> set (mk_field_attrs_loop names (fresh_attr f ns # ns))"
    by auto
  with Cons.IH show ?case by (simp add: Let_def)
qed

lemma count_list_gt1_not_distinct: "1 < count_list xs x \<Longrightarrow> \<not> distinct xs"
  by (induction xs) (auto split: if_splits simp: count_list_0_iff)

lemma not_distinct_count: "\<not> distinct xs \<Longrightarrow> \<exists>x \<in> set xs. 1 < count_list xs x"
proof (induction xs)
  case Nil
  then show ?case by simp
next
  case (Cons a xs)
  show ?case
  proof (cases "a \<in> set xs")
    case True
    then have "0 < count_list xs a" using count_list_0_iff [of xs a] by auto
    then show ?thesis by auto
  next
    case False
    with Cons.prems have "\<not> distinct xs" by simp
    from Cons.IH [OF this] obtain x where "x \<in> set xs" "1 < count_list xs x" by blast
    then show ?thesis by (intro bexI [of _ x]) auto
  qed
qed

lemma get_duplicates_Nil_iff: "get_duplicates xs = [] \<longleftrightarrow> distinct xs"
proof
  assume "get_duplicates xs = []"
  then have "\<forall>x \<in> set xs. \<not> 1 < count_list xs x"
    by (auto simp: get_duplicates_def filter_empty_conv)
  then show "distinct xs" using not_distinct_count by blast
next
  assume "distinct xs"
  then show "get_duplicates xs = []"
    using count_list_gt1_not_distinct [of xs]
    by (auto simp: get_duplicates_def filter_empty_conv)
qed

lemma new_class_wf:
  assumes "new_class name bases attrs = Inr C" and "list_ex cls_is_serializable bases"
  shows "\<exists>m. cls_meta C = Some m \<and> wf_meta m"
  using assms
  by (auto simp: new_class_def Let_def wf_meta_def mk_field_attrs_def mk_field_attrs_loop_length
      mk_field_attrs_loop_distinct get_duplicates_Nil_iff filter_empty_conv list_all_iff
      list_ex_iff split: if_splits)

lemma new_class_Inl_TypeError:
  "new_class name bases body = Inl e \<Longrightarrow> \<exists>t. e = TypeError t"
  by (auto simp: new_class_def Let_def split: if_splits)

lemma parent_names_subset:
  "[n \<leftarrow> concat (map (\<lambda>base. case cls_meta base of Some m \<Rightarrow> field_names m | None \<Rightarrow> [])
                      (filter cls_is_serializable bases)). n \<notin> set names] = []
   \<longleftrightarrow> (\<forall>b \<in> set bases. cls_is_serializable b \<longrightarrow>
          (\<forall>pm. cls_meta b = Some pm \<longrightarrow> set (field_names pm) \<subseteq> set names))"
  (is "?L \<longleftrightarrow> ?R")
proof
  assume l: ?L
  show ?R
  proof (intro ballI impI allI subsetI)
    fix b pm x
    assume "b \<in> set bases" "cls_is_serializable b" "cls_meta b = Some pm"
      "x \<in> set (field_names pm)"
    then have "x \<in> set (concat (map (\<lambda>base. case cls_meta base of Some m \<Rightarrow> field_names m
                                              | None \<Rightarrow> [])
                             (filter cls_is_serializable bases)))"
      by (auto intro!: bexI [of _ b])
    with l show "x \<in> set names" by (auto simp: filter_empty_conv)
  qed
next
  assume r: ?R
  show ?L
    unfolding filter_empty_conv
  proof (intro ballI)
    fix n
    assume "n \<in> set (concat (map (\<lambda>base. case cls_meta base of Some m \<Rightarrow> field_names m
                                              | None \<Rightarrow> [])
                             (filter cls_is_serializable bases)))"
    then obtain b where b: "b \<in> set bases" "cls_is_serializable b"
      and n: "n \<in> set (case cls_meta b of Some m \<Rightarrow> field_names m | None \<Rightarrow> [])"
      by auto
    from n obtain pm where "cls_meta b = Some pm" "n \<in> set (field_names pm)"
      by (cases "cls_meta b") auto
    with r b show "\<not> n \<notin> set names" by blast
  qed
qed

subsection \<open>Construction\<close>

lemma fold_setattr_cls:
  "cls (fold (\<lambda>(v, attr) self. setattr self attr (f v)) ps s0) = cls s0
   \<and> hash_cache (fold (\<lambda>(v, attr) self. setattr self attr (f v)) ps s0) = hash_cache s0"
  by (induction ps arbitrary: s0) (auto simp: setattr_def)

lemma fold_setattr_map_of:
  assumes "distinct as" and "length vs = length as"
  shows "map_of (inst_dict (fold (\<lambda>(v, attr) self. setattr self attr (f v)) (zip vs as) s0))
         = map_of (inst_dict s0) ++ map_of (zip as (map f vs))"
  using assms(2,1)
proof (induction vs as arbitrary: s0 rule: list_induct2)
  case Nil
  then show ?case by simp
next
  case (Cons v vs a as)
  have notin: "a \<notin> dom (map_of (zip as (map f vs)))"
    using Cons.prems Cons.hyps by auto
  have "map_of (inst_dict (fold (\<lambda>(v, attr) self. setattr self attr (f v)) (zip vs as)
            (setattr s0 a (f v))))
        = map_of (inst_dict (setattr s0 a (f v))) ++ map_of (zip as (map f vs))"
    using Cons.IH Cons.prems by simp
  also have "\<dots> = (map_of (inst_dict s0))(a \<mapsto> f v) ++ map_of (zip as (map f vs))"
    by (simp add: setattr_def update_conv')
  also have "\<dots> = (map_of (inst_dict s0) ++ map_of (zip as (map f vs)))(a \<mapsto> f v)"
    using notin by (simp add: map_add_upd_left)
  finally have step:
    "map_of (inst_dict (fold (\<lambda>(v, attr) self. setattr self attr (f v)) (zip vs as)
            (setattr s0 a (f v))))
     = (map_of (inst_dict s0) ++ map_of (zip as (map f vs)))(a \<mapsto> f v)" .
  have rhs: "map_of (zip (a # as) (map f (v # vs))) = (map_of (zip as (map f vs)))(a \<mapsto> f v)"
    by simp
  show ?case
    unfolding rhs map_add_upd using step by simp
qed

lemma getattr_each_map_of:
  assumes "\<And>i. i < length as \<Longrightarrow> map_of (inst_dict r) (as ! i) = Some (g i)"
  shows "getattr_each r as = Inr (map g [0..<length as])"
  using assms
proof (induction as arbitrary: g)
  case Nil
  then show ?case by simp
next
  case (Cons a as)
  have hd: "map_of (inst_dict r) a = Some (g 0)" using Cons.prems [of 0] by simp
  have "getattr_each r as = Inr (map (\<lambda>i. g (Suc i)) [0..<length as])"
    by (rule Cons.IH) (use Cons.prems in force)
  then show ?case
    using hd by (simp add: getattr_def map_upt_Suc del: upt_Suc)
qed

lemma getattr_each_length: "getattr_each r as = Inr vs \<Longrightarrow> length vs = length as"
  by (induction as arbitrary: vs) (auto split: sum.splits)

lemma lookup_each_Inr:
  "lookup_each kwargs names = Inr vs \<Longrightarrow>
     length vs = length names \<and> (\<forall>i < length names. map_of kwargs (names ! i) = Some (vs ! i))"
proof (induction names arbitrary: vs)
  case Nil
  then show ?case by simp
next
  case (Cons n names)
  then show ?case
    by (auto split: option.splits sum.splits simp: nth_Cons split: nat.splits)
qed

lemma lookup_each_total:
  "set names \<subseteq> set (keys kwargs) \<Longrightarrow> \<exists>vs. lookup_each kwargs names = Inr vs"
proof (induction names)
  case Nil
  then show ?case by simp
next
  case (Cons n names)
  then obtain vs where "lookup_each kwargs names = Inr vs" by auto
  moreover have "map_of kwargs n \<noteq> None"
    using Cons.prems by (simp add: map_of_eq_None_iff keys_def)
  then obtain v where "map_of kwargs n = Some v" by blast
  ultimately show ?case by simp
qed

lemma merge_kwargs_to_args_Inr:
  assumes "merge_kwargs_to_args args kwargs names allow = Inr fv"
  shows "length fv = length args + length (drop (length args) names)
         \<and> (\<forall>i < length fv. passed_value args kwargs names i = Some (fv ! i))"
proof -
  from assms obtain vs where vs: "lookup_each kwargs (drop (length args) names) = Inr vs"
    and fv: "fv = args @ vs"
    by (auto simp: merge_kwargs_to_args_def Let_def split: sum.splits)
  from lookup_each_Inr [OF vs]
  have len: "length vs = length (drop (length args) names)"
    and look: "\<forall>i < length (drop (length args) names).
                 map_of kwargs (drop (length args) names ! i) = Some (vs ! i)"
    by auto
  show ?thesis
  proof (intro conjI allI impI)
    show "length fv = length args + length (drop (length args) names)"
      by (simp add: fv len)
  next
    fix i assume i: "i < length fv"
    show "passed_value args kwargs names i = Some (fv ! i)"
    proof (cases "i < length args")
      case True
      then show ?thesis by (simp add: passed_value_def fv nth_append)
    next
      case False
      then have j: "i - length args < length (drop (length args) names)"
        using i by (simp add: fv len)
      from look j have "map_of kwargs (drop (length args) names ! (i - length args))
                        = Some (vs ! (i - length args))" by blast
      moreover have "drop (length args) names ! (i - length args) = names ! i"
        using False j by simp
      ultimately show ?thesis
        using False by (simp add: passed_value_def fv nth_append)
    qed
  qed
qed

lemma serializable_init_Inr:
  assumes m: "cls_meta C = Some m" and wf: "wf_meta m"
    and init: "serializable_init C args kwargs = Inr r"
  shows "\<exists>fv. length fv = length (field_names m)
           \<and> (\<forall>i < length (field_names m). passed_value args kwargs (field_names m) i = Some (fv ! i))
           \<and> cls r = C \<and> hash_cache r = None
           \<and> map_of (inst_dict r) = map_of (zip (field_attrs m) (map make_immutable fv))"
proof -
  from init m obtain fv where
    fv: "(if kwargs \<noteq> [] then merge_kwargs_to_args args kwargs (field_names m) False else Inr args)
         = Inr fv"
    and len: "length fv = length (field_names m)"
    and r: "r = fold (\<lambda>(v, attr) self. setattr self attr (make_immutable v))
                  (zip fv (field_attrs m)) \<lparr>cls = C, inst_dict = [], hash_cache = None\<rparr>"
    by (auto simp: serializable_init_def split: sum.splits if_splits)
  have pv: "\<forall>i < length (field_names m). passed_value args kwargs (field_names m) i = Some (fv ! i)"
  proof (cases "kwargs = []")
    case True
    with fv have "fv = args" by simp
    then show ?thesis using len by (simp add: passed_value_def)
  next
    case False
    with fv have "merge_kwargs_to_args args kwargs (field_names m) False = Inr fv" by simp
    from merge_kwargs_to_args_Inr [OF this] len show ?thesis by simp
  qed
  from wf have d: "distinct (field_attrs m)" and l: "length fv = length (field_attrs m)"
    using len unfolding wf_meta_def by simp_all
  have "map_of (inst_dict r) = map_of (zip (field_attrs m) (map make_immutable fv))"
    unfolding r by (simp add: fold_setattr_map_of [OF d l])
  moreover have "cls r = C" "hash_cache r = None"
    unfolding r by (simp_all add: fold_setattr_cls)
  ultimately show ?thesis using len pv by blast
qed

lemma map_of_zip_stored:
  assumes "map_of (inst_dict r) = map_of (zip as vs)" "distinct as" "length as = length vs"
  shows "getattr_each r as = Inr vs"
proof -
  have "getattr_each r as = Inr (map (\<lambda>i. vs ! i) [0..<length as])"
  proof (rule getattr_each_map_of)
    fix i assume "i < length as"
    then show "map_of (inst_dict r) (as ! i) = Some (vs ! i)"
      using assms by (simp add: map_of_zip_nth)
  qed
  then show ?thesis using assms(3) by (simp add: map_nth)
qed

lemma get_field_stored:
  assumes m: "cls_meta (cls r) = Some m" and wf: "wf_meta m"
    and st: "map_of (inst_dict r) = map_of (zip (field_attrs m) vs)"
    and len: "length vs = length (field_names m)" and i: "i < length (field_names m)"
  shows "get_field r (field_names m ! i) = Inr (vs ! i)"
proof -
  from wf have d: "distinct (field_names m)" "distinct (field_attrs m)"
    and l: "length (field_attrs m) = length (field_names m)"
    unfolding wf_meta_def by blast+
  have "map_of (field_props m) (field_names m ! i) = Some (field_attrs m ! i)"
    unfolding field_props_def using d l i by (simp add: map_of_zip_nth)
  moreover have "map_of (inst_dict r) (field_attrs m ! i) = Some (vs ! i)"
    unfolding st using d l i len by (simp add: map_of_zip_nth)
  ultimately show ?thesis
    using m by (simp add: get_field_def getattr_def)
qed

lemma make_immutable_idem: "make_immutable (make_immutable v) = make_immutable v"
  by (cases v) simp_all

lemma py_eq_pairs_refl: "(\<And>x. x \<in> set vs \<Longrightarrow> py_eq x x) \<Longrightarrow> py_eq_pairs vs vs"
  by (induction vs) simp_all

lemma py_eq_refl: "py_eq v v"
  by (induction v) (simp_all add: py_eq_pairs_refl)

subsection \<open>Validation of constructor arguments\<close>

lemma validate_Inl_TypeError:
  "validate_args_and_kwargs args kwargs names allow = Inl e \<Longrightarrow> \<exists>t. e = TypeError t"
  by (auto simp: validate_args_and_kwargs_def Let_def split: if_splits)

lemma validate_Inr_iff:
  "validate_args_and_kwargs args kwargs names allow = Inr u \<longleftrightarrow>
     distinct names
     \<and> set (take (length args) names) \<inter> set (keys kwargs) = {}
     \<and> set (keys kwargs) \<subseteq> set names
     \<and> (allow \<or> set (drop (length args) names) \<subseteq> set (keys kwargs))"
  by (auto simp: validate_args_and_kwargs_def Let_def get_duplicates_Nil_iff filter_empty_conv)

lemma map_of_None_keys: "map_of kwargs k = None \<longleftrightarrow> k \<notin> set (keys kwargs)"
  by (simp add: map_of_eq_None_iff keys_def)

lemma missing_in_drop:
  assumes "i < length names" "passed_value args kwargs names i = None"
  shows "length args \<le> i \<and> names ! i \<in> set (drop (length args) names)
         \<and> names ! i \<notin> set (keys kwargs)"
proof -
  from assms have ge: "length args \<le> i" and none: "map_of kwargs (names ! i) = None"
    by (auto simp: passed_value_def split: if_splits)
  have "names ! i = drop (length args) names ! (i - length args)"
    using ge assms(1) by simp
  moreover have "i - length args < length (drop (length args) names)"
    using ge assms(1) by simp
  ultimately have "names ! i \<in> set (drop (length args) names)"
    by (metis nth_mem)
  with ge none show ?thesis by (simp add: map_of_None_keys)
qed

lemma init_fails:
  assumes m: "cls_meta C = Some m"
    and bad: "(\<exists>k \<in> set (keys kwargs). k \<in> set (take (length args) (field_names m)))
              \<or> (\<exists>k \<in> set (keys kwargs). k \<notin> set (field_names m))
              \<or> (\<exists>i < length (field_names m). passed_value args kwargs (field_names m) i = None)"
  shows "\<exists>t. serializable_init C args kwargs = Inl (TypeError t)"
proof (cases "kwargs = []")
  case True
  with bad obtain i where i: "i < length (field_names m)"
    "passed_value args kwargs (field_names m) i = None"
    by (auto simp: keys_def)
  from missing_in_drop [OF this] have "length args \<noteq> length (field_names m)"
    using i(1) by simp
  then show ?thesis using m True by (simp add: serializable_init_def)
next
  case False
  have "\<not> (distinct (field_names m)
     \<and> set (take (length args) (field_names m)) \<inter> set (keys kwargs) = {}
     \<and> set (keys kwargs) \<subseteq> set (field_names m)
     \<and> (False \<or> set (drop (length args) (field_names m)) \<subseteq> set (keys kwargs)))"
    using bad missing_in_drop [of _ "field_names m" args kwargs] by blast
  then have "validate_args_and_kwargs args kwargs (field_names m) False \<noteq> Inr ()"
    using validate_Inr_iff [of args kwargs "field_names m" False "()"] by blast
  then obtain e where "validate_args_and_kwargs args kwargs (field_names m) False = Inl e"
    by (cases "validate_args_and_kwargs args kwargs (field_names m) False") auto
  moreover from validate_Inl_TypeError [OF this] obtain t where "e = TypeError t" by blast
  ultimately show ?thesis
    using m False by (simp add: serializable_init_def merge_kwargs_to_args_def)
qed

lemma init_succeeds:
  assumes m: "cls_meta C = Some m" and d: "distinct (field_names m)"
    and len: "length args \<le> length (field_names m)"
    and a: "\<not> (\<exists>k \<in> set (keys kwargs). k \<in> set (take (length args) (field_names m)))"
    and b: "\<not> (\<exists>k \<in> set (keys kwargs). k \<notin> set (field_names m))"
    and c: "\<not> (\<exists>i < length (field_names m). passed_value args kwargs (field_names m) i = None)"
  shows "\<exists>r. serializable_init C args kwargs = Inr r"
proof (cases "kwargs = []")
  case True
  have "\<not> length args < length (field_names m)"
  proof
    assume "length args < length (field_names m)"
    then have "passed_value args kwargs (field_names m) (length args) = None"
      using True by (simp add: passed_value_def)
    with c \<open>length args < length (field_names m)\<close> show False by blast
  qed
  with len have "length args = length (field_names m)" by simp
  then show ?thesis using m True by (simp add: serializable_init_def)
next
  case False
  have sub: "set (drop (length args) (field_names m)) \<subseteq> set (keys kwargs)"
  proof
    fix n assume "n \<in> set (drop (length args) (field_names m))"
    then obtain j where j: "j < length (drop (length args) (field_names m))"
      "n = drop (length args) (field_names m) ! j"
      by (metis in_set_conv_nth)
    then have nj: "n = field_names m ! (length args + j)"
      and lt: "length args + j < length (field_names m)"
      by simp_all
    from c lt have "passed_value args kwargs (field_names m) (length args + j) \<noteq> None"
      by auto
    then show "n \<in> set (keys kwargs)"
      using \<open>n = field_names m ! (length args + j)\<close>
      by (simp add: passed_value_def map_of_None_keys)
  qed
  have "validate_args_and_kwargs args kwargs (field_names m) False = Inr ()"
    using validate_Inr_iff [of args kwargs "field_names m" False "()"] d a b sub by blast
  moreover from lookup_each_total [OF sub] obtain vs where
    vs: "lookup_each kwargs (drop (length args) (field_names m)) = Inr vs" by blast
  moreover from lookup_each_Inr [OF vs]
  have "length vs = length (field_names m) - length args" by simp
  ultimately show ?thesis
    using m False len by (simp add: serializable_init_def merge_kwargs_to_args_def)
qed

subsection \<open>Changesets\<close>

lemma update_fresh: "k \<notin> fst ` set al \<Longrightarrow> AList.update k v al = al @ [(k, v)]"
  by (induction al) auto

lemma fold_update_distinct:
  "distinct (map fst (acc @ ps)) \<Longrightarrow> fold (\<lambda>(k, v) d. AList.update k v d) ps acc = acc @ ps"
proof (induction ps arbitrary: acc)
  case Nil
  then show ?case by simp
next
  case (Cons p ps)
  obtain k v where p: "p = (k, v)" by (cases p)
  from Cons.prems have fresh: "k \<notin> fst ` set acc" by (auto simp: p)
  from Cons.prems have "distinct (map fst ((acc @ [(k, v)]) @ ps))" by (auto simp: p)
  from Cons.IH [OF this] show ?case by (simp add: p update_fresh [OF fresh])
qed

lemma dict_of_pairs_distinct: "distinct (map fst ps) \<Longrightarrow> dict_of_pairs ps = ps"
  unfolding dict_of_pairs_def using fold_update_distinct [of "[]" ps] by simp

subsection \<open>Hashing\<close>

lemma py_hash_hashable:
  "deeply_immutable v \<Longrightarrow> \<exists>h. py_hash ah v = Inr h"
  "list_all deeply_immutable vs \<Longrightarrow> \<exists>h. tuplehash ah acc len vs = Inr h"
proof (induction ah v and ah acc len vs rule: py_hash_tuplehash.induct)
  case (5 ah acc len item rest)
  from "5.prems" have "deeply_immutable item" by simp
  from "5.IH"(1) [OF this] obtain lane where lane: "py_hash ah item = Inr lane" by blast
  from "5.prems" have "list_all deeply_immutable rest" by simp
  from "5.IH"(2) [OF lane this] lane show ?case by simp
qed (simp_all add: Let_def)

lemma py_hash_unhashable:
  "\<not> deeply_immutable v \<Longrightarrow> py_hash ah v = Inl (TypeError Unhashable_list)"
  "\<not> list_all deeply_immutable vs \<Longrightarrow> tuplehash ah acc len vs = Inl (TypeError Unhashable_list)"
proof (induction ah v and ah acc len vs rule: py_hash_tuplehash.induct)
  case (5 ah acc len item rest)
  show ?case
  proof (cases "deeply_immutable item")
    case True
    from py_hash_hashable(1) [OF this] obtain lane where lane: "py_hash ah item = Inr lane"
      by blast
    from True "5.prems" have "\<not> list_all deeply_immutable rest" by simp
    from "5.IH"(2) [OF lane this] lane show ?thesis by simp
  next
    case False
    from "5.IH"(1) [OF this] show ?thesis by simp
  qed
qed simp_all

subsection \<open>The immutable projection\<close>

lemma deeply_immutable_no_list_in_tuple: "deeply_immutable v \<Longrightarrow> no_list_in_tuple v"
  by (cases v) simp_all

lemma make_immutable_deeply_immutable: "deeply_immutable v \<Longrightarrow> make_immutable v = v"
  by (cases v) simp_all

lemma map_make_immutable_id: "list_all deeply_immutable xs \<Longrightarrow> map make_immutable xs = xs"
  by (induction xs) (simp_all add: make_immutable_deeply_immutable)

lemma deeply_immutable_make_immutable:
  "deeply_immutable (make_immutable v) \<longleftrightarrow> no_list_in_tuple v"
  by (induction v) (simp_all add: list_all_iff)

lemma py_eq_pairs_map:
  "(\<And>x. x \<in> set xs \<Longrightarrow> py_eq (f x) x) \<Longrightarrow> py_eq_pairs (map f xs) xs"
  by (induction xs) simp_all

lemma py_eq_make_immutable_self: "py_eq (make_immutable v) v"
  by (induction v) (simp_all add: py_eq_pairs_map py_eq_pairs_refl py_eq_refl)

lemma py_eq_make_immutable:
  "py_eq (a :: 'a pyval) b \<Longrightarrow> no_list_in_tuple a \<Longrightarrow> no_list_in_tuple b
     \<Longrightarrow> make_immutable a = make_immutable b"
  "length (xs :: 'a pyval list) = length ys \<Longrightarrow> py_eq_pairs xs ys \<Longrightarrow> list_all no_list_in_tuple xs
     \<Longrightarrow> list_all no_list_in_tuple ys \<Longrightarrow> map make_immutable xs = map make_immutable ys"
proof (induction a b and xs ys rule: py_eq_py_eq_pairs.induct)
  case (1 xs ys)
  then show ?case by simp
next
  case (2 xs ys)
  from "2.prems" have di: "list_all deeply_immutable ys" by simp
  then have "list_all no_list_in_tuple ys"
    by (simp add: list_all_iff deeply_immutable_no_list_in_tuple)
  with "2.IH" "2.prems" have "map make_immutable xs = map make_immutable ys" by simp
  with di show ?case by (simp add: map_make_immutable_id)
next
  case (3 xs ys)
  from "3.prems" have di: "list_all deeply_immutable xs" by simp
  then have "list_all no_list_in_tuple xs"
    by (simp add: list_all_iff deeply_immutable_no_list_in_tuple)
  with "3.IH" "3.prems" have "map make_immutable xs = map make_immutable ys" by simp
  with di show ?case by (simp add: map_make_immutable_id)
next
  case (4 xs ys)
  from "4.prems" have di: "list_all deeply_immutable xs" "list_all deeply_immutable ys"
    by simp_all
  then have "list_all no_list_in_tuple xs" "list_all no_list_in_tuple ys"
    by (simp_all add: list_all_iff deeply_immutable_no_list_in_tuple)
  with "4.IH" "4.prems" have "map make_immutable xs = map make_immutable ys" by simp
  with di show ?case by (simp add: map_make_immutable_id)
qed simp_all

subsection \<open>The list sedes\<close>

lemma ListSedes_loop_fails:
  assumes "length ss = length vs" and "i < length ss"
    and "\<forall>j < i. \<exists>w. ser (ss ! j) (vs ! j) = Inr w"
    and "ser (ss ! i) (vs ! i) = Inl e"
  shows "ListSedes_loop ser obj k ss vs
         = Inl (ListSerializationError (Element_at_index (int (k + i)) (str_of e)) obj (Some e)
                  (Some (int (k + i))))"
  using assms
proof (induction ss vs arbitrary: i k rule: list_induct2)
  case Nil
  then show ?case by simp
next
  case (Cons s ss v vs)
  show ?case
  proof (cases i)
    case 0
    with Cons.prems show ?thesis by (simp add: ListSerializationError_init_def)
  next
    case (Suc i')
    from Cons.prems Suc obtain w where w: "ser s v = Inr w" by fastforce
    have "ListSedes_loop ser obj (Suc k) ss vs
         = Inl (ListSerializationError (Element_at_index (int (Suc k + i')) (str_of e)) obj (Some e)
                  (Some (int (Suc k + i'))))"
    proof (rule Cons.IH)
      show "i' < length ss" using Cons.prems Suc by simp
      show "\<forall>j < i'. \<exists>w. ser (ss ! j) (vs ! j) = Inr w"
        using Cons.prems(2) Suc by (metis Suc_less_eq nth_Cons_Suc)
      show "ser (ss ! i') (vs ! i') = Inl e" using Cons.prems Suc by simp
    qed
    with w Suc show ?thesis by simp
  qed
qed

lemma ListSedes_serialize_error_shape:
  "ListSedes_serialize ser ss obj vals = Inl x \<Longrightarrow>
     x = ListSerializationError (Text ''length mismatch'') obj None None
     \<or> (\<exists>i e. i < length ss
           \<and> x = ListSerializationError (Element_at_index (int i) (str_of e)) obj (Some e)
                   (Some (int i)))"
proof -
  have loop: "ListSedes_loop ser obj k ss vs = Inl x \<Longrightarrow>
      \<exists>i e. i < length ss
        \<and> x = ListSerializationError (Element_at_index (int (k + i)) (str_of e)) obj (Some e)
                (Some (int (k + i)))" for k ss vs
  proof (induction ser obj k ss vs rule: ListSedes_loop.induct)
    case (1 ser obj i s ss v vs)
    show ?case
    proof (cases "ser s v")
      case (Inl e)
      with "1.prems" show ?thesis
        by (intro exI [of _ 0] exI [of _ e]) (simp add: ListSerializationError_init_def)
    next
      case (Inr w)
      with "1.prems" have "ListSedes_loop ser obj (Suc i) ss vs = Inl x"
        by (simp split: sum.splits)
      from "1.IH" [OF Inr this] obtain j e where "j < length ss"
        "x = ListSerializationError (Element_at_index (int (Suc i + j)) (str_of e)) obj (Some e)
                (Some (int (Suc i + j)))" by blast
      then show ?thesis by (intro exI [of _ "Suc j"] exI [of _ e]) simp
    qed
  qed simp_all
  assume "ListSedes_serialize ser ss obj vals = Inl x"
  then show ?thesis
    using loop [of 0 ss vals]
    by (auto simp: ListSedes_serialize_def ListSerializationError_init_def
        split: if_splits sum.splits)
qed

subsection \<open>The example classes\<close>

lemma new_class_A: "new_class ''A'' [Serializable] body_x = Inr class_A"
  by code_simp

lemma new_class_B: "new_class ''B'' [Serializable] body_x = Inr class_B"
  by code_simp

lemma init_x:
  "cls_meta C = Some schema_x \<Longrightarrow> serializable_init C [v] [] = Inr (instance_x C (make_immutable v))"
  by (simp add: serializable_init_def schema_x_def instance_x_def setattr_def)

lemma get_field_x:
  "cls_meta C = Some schema_x \<Longrightarrow> get_field (instance_x C v) ''x'' = Inr v"
  by (simp add: get_field_def schema_x_def instance_x_def field_props_def getattr_def)

lemma init_stores:
  assumes "new_class name bases body = Inr C" and "list_ex cls_is_serializable bases"
    and "cls_meta C = Some m" and "serializable_init C args kwargs = Inr r"
    and "i < length (field_names m)"
  shows "\<exists>v. passed_value args kwargs (field_names m) i = Some v
             \<and> get_field r (field_names m ! i) = Inr (make_immutable v)"
proof -
  from new_class_wf [OF assms(1,2)] assms(3) have wf: "wf_meta m" by auto
  from serializable_init_Inr [OF assms(3) wf assms(4)] obtain fv where
    len: "length fv = length (field_names m)"
    and pv: "\<forall>i < length (field_names m). passed_value args kwargs (field_names m) i = Some (fv ! i)"
    and c: "cls r = C"
    and st: "map_of (inst_dict r) = map_of (zip (field_attrs m) (map make_immutable fv))"
    by blast
  have "get_field r (field_names m ! i) = Inr (map make_immutable fv ! i)"
    by (rule get_field_stored [OF _ wf st]) (use c assms len in simp_all)
  with pv assms(5) len show ?thesis by simp
qed

lemma hash_tuple_1: "py_hash long_hash (PyTuple [Atom 1]) = Inr (- 6644214454873602895)"
  by (simp add: long_hash_def XXPRIME_1_def XXPRIME_2_def XXPRIME_5_def XXROTATE_def)

lemma hash_tuple_m1: "py_hash long_hash (PyTuple [Atom (- 1)]) = Inr 8078679518589016365"
  by (simp add: long_hash_def XXPRIME_1_def XXPRIME_2_def XXPRIME_5_def XXROTATE_def)

lemma hash_tuple_m2: "py_hash long_hash (PyTuple [Atom (- 2)]) = Inr 8078679518589016365"
  by (simp add: long_hash_def XXPRIME_1_def XXPRIME_2_def XXPRIME_5_def XXROTATE_def)

lemma new_class_ABC: "new_class ''ABC'' [Serializable] body_abc = Inr class_ABC"
  by code_simp

lemma new_class_child_dup:
  "new_class ''Child'' [class_A]
     \<lparr>declared_fields = Some [(''y'', ()), (''y'', ())], other_attrs = []\<rparr>
   = Inl (TypeError (Duplicated_fields [''y'']))"
  by code_simp

lemma new_class_child_missing:
  "new_class ''Child'' [class_A]
     \<lparr>declared_fields = Some [(''y'', ())], other_attrs = []\<rparr>
   = Inl (TypeError (Missing_fields [''x'']))"
  by code_simp

lemma init_abc: "serializable_init class_ABC [Atom 1, Atom 2, Atom 3] [] = Inr instance_abc"
  by (simp add: serializable_init_def class_ABC_def schema_abc_def instance_abc_def setattr_def)

lemma items_abc: "items_of (Instance instance_abc) = Inr [Atom 1, Atom 2, Atom 3]"
  by (simp add: items_of_def serializable_iter_def self_meta_def instance_abc_def class_ABC_def
      schema_abc_def getattr_def)

lemma ListSedes_arity_example:
  "ListSedes_serialize_obj example_ser (sedes schema_abc) (Other (PyTuple [Atom 1]))
   = Inl (ListSerializationError (Text ''length mismatch'') (Other (PyTuple [Atom 1])) None None)"
  by (simp add: ListSedes_serialize_obj_def items_of_def ListSedes_serialize_def schema_abc_def
      ListSerializationError_init_def)

section \<open>The claims\<close>

text \<open>
  Claim C10. The immutable projection applied at record construction converts only lists:
  a tuple (and an atom) is returned unchanged, without a look at its elements. Hence a
  tuple that is passed for a field, positionally or by name, to the constructor of a class
  created by the metaclass is read back from the record as it was passed, with any lists
  inside it still lists.
\<close>

theorem make_immutable_lists_only:
  "make_immutable (PyTuple xs) = PyTuple xs \<and> make_immutable (Atom a) = Atom a
   \<and> (new_class name bases body = Inr C \<and> list_ex cls_is_serializable bases
        \<and> cls_meta C = Some m \<and> serializable_init C args kwargs = Inr r
        \<and> i < length (field_names m)
        \<and> passed_value args kwargs (field_names m) i = Some (PyTuple xs)
      \<longrightarrow> get_field r (field_names m ! i) = Inr (PyTuple xs))"
proof (intro conjI impI)
  assume h: "new_class name bases body = Inr C \<and> list_ex cls_is_serializable bases
        \<and> cls_meta C = Some m \<and> serializable_init C args kwargs = Inr r
        \<and> i < length (field_names m)
        \<and> passed_value args kwargs (field_names m) i = Some (PyTuple xs)"
  then obtain v where "passed_value args kwargs (field_names m) i = Some v"
    "get_field r (field_names m ! i) = Inr (make_immutable v)"
    using init_stores [of name bases body C m args kwargs r i] by blast
  with h show "get_field r (field_names m ! i) = Inr (PyTuple xs)" by simp
qed simp_all

theorem make_immutable_lists_only_witness:
  "new_class ''A'' [Serializable] body_x = Inr class_A
   \<and> list_ex cls_is_serializable [Serializable :: unit pyclass]
   \<and> cls_meta class_A = Some schema_x
   \<and> serializable_init class_A [PyTuple [PyList [Atom 1]]] []
       = Inr (instance_x class_A (PyTuple [PyList [Atom 1]]))
   \<and> 0 < length (field_names schema_x)
   \<and> passed_value [PyTuple [PyList [Atom 1]]] [] (field_names schema_x) 0
       = Some (PyTuple [PyList [Atom (1::int)]])
   \<and> get_field (instance_x class_A (PyTuple [PyList [Atom 1]])) (field_names schema_x ! 0)
       = Inr (PyTuple [PyList [Atom 1]])"
proof -
  have m: "cls_meta class_A = Some schema_x" by (simp add: class_A_def)
  have h: "new_class ''A'' [Serializable] body_x = Inr class_A
     \<and> list_ex cls_is_serializable [Serializable :: unit pyclass]
     \<and> cls_meta class_A = Some schema_x
     \<and> serializable_init class_A [PyTuple [PyList [Atom 1]]] []
         = Inr (instance_x class_A (PyTuple [PyList [Atom 1]]))
     \<and> 0 < length (field_names schema_x)
     \<and> passed_value [PyTuple [PyList [Atom 1]]] [] (field_names schema_x) 0
         = Some (PyTuple [PyList [Atom (1::int)]])"
    using new_class_A init_x [OF m, of "PyTuple [PyList [Atom 1]]"]
    by (simp add: m Serializable_def schema_x_def passed_value_def)
  from make_immutable_lists_only [of "[PyList [Atom 1]]" 1 "''A''" "[Serializable]" body_x
      class_A schema_x "[PyTuple [PyList [Atom 1]]]" "[]"
      "instance_x class_A (PyTuple [PyList [Atom 1]])" 0] h
  show ?thesis by blast
qed

text \<open>
  Claim C8. For a class created by the metaclass, the constructor fails with a
  \<^verbatim>\<open>TypeError\<close> when a field is given both positionally and by name, when a named key
  is not a field name, and when some field is given neither positionally nor by name. With
  no more positional values than fields, no conflict, no unknown key and no field left
  out, construction succeeds. \<^verbatim>\<open>validate_args_and_kwargs\<close> accepts an assignment that leaves
  fields out when its caller passes \<^verbatim>\<open>allow_missing=True\<close>, which the constructor never does.
\<close>

theorem construction_validation:
  assumes "new_class name bases body = Inr C" and "list_ex cls_is_serializable bases"
    and "cls_meta C = Some m"
  shows
    "((\<exists>k \<in> set (keys kwargs). k \<in> set (take (length args) (field_names m)))
        \<longrightarrow> (\<exists>t. serializable_init C args kwargs = Inl (TypeError t)))
     \<and> ((\<exists>k \<in> set (keys kwargs). k \<notin> set (field_names m))
        \<longrightarrow> (\<exists>t. serializable_init C args kwargs = Inl (TypeError t)))
     \<and> ((\<exists>i < length (field_names m). passed_value args kwargs (field_names m) i = None)
        \<longrightarrow> (\<exists>t. serializable_init C args kwargs = Inl (TypeError t)))
     \<and> (length args \<le> length (field_names m)
         \<and> \<not> (\<exists>k \<in> set (keys kwargs). k \<in> set (take (length args) (field_names m)))
         \<and> \<not> (\<exists>k \<in> set (keys kwargs). k \<notin> set (field_names m))
         \<and> \<not> (\<exists>i < length (field_names m). passed_value args kwargs (field_names m) i = None)
        \<longrightarrow> (\<exists>r. serializable_init C args kwargs = Inr r))
     \<and> (\<not> (\<exists>k \<in> set (keys kwargs). k \<in> set (take (length args) (field_names m)))
         \<and> \<not> (\<exists>k \<in> set (keys kwargs). k \<notin> set (field_names m))
        \<longrightarrow> validate_args_and_kwargs args kwargs (field_names m) True = Inr ())"
proof -
  from new_class_wf [OF assms(1,2)] assms(3) have "wf_meta m" by auto
  then have d: "distinct (field_names m)" unfolding wf_meta_def by blast
  have v: "validate_args_and_kwargs args kwargs (field_names m) True = Inr ()"
    if "\<not> (\<exists>k \<in> set (keys kwargs). k \<in> set (take (length args) (field_names m)))"
      and "\<not> (\<exists>k \<in> set (keys kwargs). k \<notin> set (field_names m))"
    using validate_Inr_iff [of args kwargs "field_names m" True "()"] d that by blast
  show ?thesis
    using init_fails [OF assms(3), of kwargs args] init_succeeds [OF assms(3) d, of args kwargs] v
    by blast
qed

theorem construction_validation_witness:
  "new_class ''A'' [Serializable] body_x = Inr class_A
   \<and> list_ex cls_is_serializable [Serializable :: unit pyclass]
   \<and> cls_meta class_A = Some schema_x
   \<and> (\<exists>k \<in> set (keys [(''x'', Atom (2::int))]). k \<in> set (take (length [Atom (1::int)]) (field_names schema_x)))
   \<and> (\<exists>t. serializable_init class_A [Atom 1] [(''x'', Atom (2::int))] = Inl (TypeError t))
   \<and> (\<exists>k \<in> set (keys [(''z'', Atom (2::int))]). k \<notin> set (field_names schema_x))
   \<and> (\<exists>t. serializable_init class_A [] [(''z'', Atom (2::int))] = Inl (TypeError t))
   \<and> (\<exists>i < length (field_names schema_x).
         passed_value [] ([] :: int pyval pydict) (field_names schema_x) i = None)
   \<and> (\<exists>t. serializable_init class_A [] ([] :: int pyval pydict) = Inl (TypeError t))
   \<and> length ([] :: int pyval list) \<le> length (field_names schema_x)
   \<and> \<not> (\<exists>k \<in> set (keys [(''x'', Atom (2::int))]). k \<in> set (take (length ([] :: int pyval list)) (field_names schema_x)))
   \<and> \<not> (\<exists>k \<in> set (keys [(''x'', Atom (2::int))]). k \<notin> set (field_names schema_x))
   \<and> \<not> (\<exists>i < length (field_names schema_x).
         passed_value [] [(''x'', Atom (2::int))] (field_names schema_x) i = None)
   \<and> (\<exists>r. serializable_init class_A [] [(''x'', Atom (2::int))] = Inr r)
   \<and> \<not> (\<exists>k \<in> set (keys ([] :: int pyval pydict)). k \<in> set (take (length ([] :: int pyval list)) (field_names schema_x)))
   \<and> \<not> (\<exists>k \<in> set (keys ([] :: int pyval pydict)). k \<notin> set (field_names schema_x))
   \<and> validate_args_and_kwargs ([] :: int pyval list) [] (field_names schema_x) True = Inr ()"
proof -
  have c: "new_class ''A'' [Serializable] body_x = Inr class_A"
    "list_ex cls_is_serializable [Serializable :: unit pyclass]"
    "cls_meta class_A = Some schema_x"
    using new_class_A by (simp_all add: Serializable_def class_A_def)
  have h1: "\<exists>k \<in> set (keys [(''x'', Atom (2::int))]). k \<in> set (take (length [Atom (1::int)]) (field_names schema_x))"
    by (simp add: keys_def schema_x_def)
  have h2: "\<exists>k \<in> set (keys [(''z'', Atom (2::int))]). k \<notin> set (field_names schema_x)"
    by (simp add: keys_def schema_x_def)
  have h3: "\<exists>i < length (field_names schema_x).
         passed_value [] ([] :: int pyval pydict) (field_names schema_x) i = None"
    by (simp add: passed_value_def schema_x_def)
  have h4: "length ([] :: int pyval list) \<le> length (field_names schema_x)"
    "\<not> (\<exists>k \<in> set (keys [(''x'', Atom (2::int))]). k \<in> set (take (length ([] :: int pyval list)) (field_names schema_x)))"
    "\<not> (\<exists>k \<in> set (keys [(''x'', Atom (2::int))]). k \<notin> set (field_names schema_x))"
    "\<not> (\<exists>i < length (field_names schema_x).
         passed_value [] [(''x'', Atom (2::int))] (field_names schema_x) i = None)"
    by (simp_all add: keys_def schema_x_def passed_value_def)
  have h5: "\<not> (\<exists>k \<in> set (keys ([] :: int pyval pydict)). k \<in> set (take (length ([] :: int pyval list)) (field_names schema_x)))"
    "\<not> (\<exists>k \<in> set (keys ([] :: int pyval pydict)). k \<notin> set (field_names schema_x))"
    by (simp_all add: keys_def)
  note t = construction_validation [OF c]
  from t [of "[(''x'', Atom 2)]" "[Atom 1]"] h1
  have r1: "\<exists>t. serializable_init class_A [Atom 1] [(''x'', Atom (2::int))] = Inl (TypeError t)"
    by blast
  from t [of "[(''z'', Atom 2)]" "[]"] h2
  have r2: "\<exists>t. serializable_init class_A [] [(''z'', Atom (2::int))] = Inl (TypeError t)"
    by blast
  from t [of "[]" "[]"] h3
  have r3: "\<exists>t. serializable_init class_A [] ([] :: int pyval pydict) = Inl (TypeError t)"
    by blast
  from t [of "[(''x'', Atom 2)]" "[]"] h4
  have r4: "\<exists>r. serializable_init class_A [] [(''x'', Atom (2::int))] = Inr r"
    by blast
  from t [of "[] :: int pyval pydict" "[] :: int pyval list"] h5
  have r5: "validate_args_and_kwargs ([] :: int pyval list) [] (field_names schema_x) True = Inr ()"
    by blast
  from c h1 h2 h3 h4 h5 r1 r2 r3 r4 r5 show ?thesis by (intro conjI)
qed

text \<open>
  Claim C7 says that every stored field value is free of mutable sequences at any depth.
  It fails for a list inside a tuple: the constructor stores the tuple \<^verbatim>\<open>([1],)\<close> as it is,
  and the list in it stays a list.
\<close>

theorem stored_values_immutable_counterexample:
  "serializable_init class_A [PyTuple [PyList [Atom 1]]] []
     = Inr (instance_x class_A (PyTuple [PyList [Atom 1]]))
   \<and> get_field (instance_x class_A (PyTuple [PyList [Atom 1]])) ''x''
       = Inr (PyTuple [PyList [Atom 1]])
   \<and> \<not> deeply_immutable (PyTuple [PyList [Atom (1::int)]])"
proof -
  have m: "cls_meta class_A = Some schema_x" by (simp add: class_A_def)
  from init_x [OF m, of "PyTuple [PyList [Atom 1]]"]
    get_field_x [OF m, of "PyTuple [PyList [Atom 1]]"]
  show ?thesis by simp
qed

text \<open>
  Claim C7, as amended. For every record built by the constructor of a class created by the
  metaclass, the value stored for a field is \<^verbatim>\<open>make_immutable\<close> of the value passed for it,
  positionally or by name. It has the same elements as the value passed (they are equal
  under \<^verbatim>\<open>_eq\<close>); a list is converted to a tuple of the projections of its items, so lists
  nested in lists are converted at any depth; any other value, a tuple included, is stored
  unchanged. The stored value is free of lists exactly when no list occurs inside a tuple
  of the value passed in.
\<close>

theorem stored_values_projection:
  assumes "new_class name bases body = Inr C" and "list_ex cls_is_serializable bases"
    and "cls_meta C = Some m" and "serializable_init C args kwargs = Inr r"
    and "i < length (field_names m)"
  shows
    "\<exists>v. passed_value args kwargs (field_names m) i = Some v
       \<and> get_field r (field_names m ! i) = Inr (make_immutable v)
       \<and> py_eq (make_immutable v) v
       \<and> (deeply_immutable (make_immutable v) \<longleftrightarrow> no_list_in_tuple v)
       \<and> (case v of
            PyList xs \<Rightarrow> make_immutable v = PyTuple (map make_immutable xs)
          | _ \<Rightarrow> make_immutable v = v)"
proof -
  from init_stores [OF assms] obtain v where
    v: "passed_value args kwargs (field_names m) i = Some v"
    "get_field r (field_names m ! i) = Inr (make_immutable v)"
    by blast
  have "case v of
          PyList xs \<Rightarrow> make_immutable v = PyTuple (map make_immutable xs)
        | _ \<Rightarrow> make_immutable v = v"
    by (cases v) simp_all
  with v py_eq_make_immutable_self [of v] deeply_immutable_make_immutable [of v]
  show ?thesis by blast
qed

theorem stored_values_projection_witness:
  "new_class ''A'' [Serializable] body_x = Inr class_A
   \<and> list_ex cls_is_serializable [Serializable :: unit pyclass]
   \<and> cls_meta class_A = Some schema_x
   \<and> serializable_init class_A [] [(''x'', PyList [Atom 1, PyList [Atom 2]])]
       = Inr (instance_x class_A (PyTuple [Atom 1, PyTuple [Atom 2]]))
   \<and> 0 < length (field_names schema_x)
   \<and> (\<exists>v. passed_value [] [(''x'', PyList [Atom 1, PyList [Atom 2]])] (field_names schema_x) 0
            = Some v
         \<and> get_field (instance_x class_A (PyTuple [Atom 1, PyTuple [Atom 2]]))
              (field_names schema_x ! 0) = Inr (make_immutable v)
         \<and> py_eq (make_immutable v) v
         \<and> (deeply_immutable (make_immutable v) \<longleftrightarrow> no_list_in_tuple v)
         \<and> (case v of
              PyList xs \<Rightarrow> make_immutable v = PyTuple (map make_immutable xs)
            | _ \<Rightarrow> make_immutable v = v))
   \<and> get_field (instance_x class_A (PyTuple [Atom 1, PyTuple [Atom 2]])) ''x''
       = Inr (PyTuple [Atom 1, PyTuple [Atom 2]])"
proof -
  have m: "cls_meta class_A = Some schema_x" by (simp add: class_A_def)
  have i: "serializable_init class_A [] [(''x'', PyList [Atom 1, PyList [Atom 2]])]
       = Inr (instance_x class_A (PyTuple [Atom 1, PyTuple [Atom (2::int)]]))"
    by (simp add: serializable_init_def class_A_def schema_x_def instance_x_def setattr_def
        merge_kwargs_to_args_def validate_args_and_kwargs_def get_duplicates_def keys_def)
  have c: "new_class ''A'' [Serializable] body_x = Inr class_A"
    "list_ex cls_is_serializable [Serializable :: unit pyclass]"
    "cls_meta class_A = Some schema_x"
    using new_class_A by (simp_all add: Serializable_def m)
  have l: "0 < length (field_names schema_x)" by (simp add: schema_x_def)
  from stored_values_projection [OF c i l] c i l
    get_field_x [OF m, of "PyTuple [Atom 1, PyTuple [Atom 2]]"]
  show ?thesis by blast
qed

text \<open>
  Claim C3. Let the list sedes of a class fail in \<^verbatim>\<open>serialize\<close> with a
  \<^verbatim>\<open>ListSerializationError\<close>. If the error carries the exception of an element and the index
  of that element, \<^verbatim>\<open>serialize\<close> raises an \<^verbatim>\<open>ObjectSerializationError\<close> whose \<^verbatim>\<open>field\<close> is the name
  at that index in the declaration order of the schema and which wraps the list error. If
  the list error carries neither, the error raised has \<^verbatim>\<open>field = None\<close> and the message about
  the underlying list. With the list sedes of the specification, run on a record of a class
  created by the metaclass: when the element sedes at position \<open>i\<close> is the first to fail,
  the error raised names the field at position \<open>i\<close>; for the schema \<^verbatim>\<open>(a, b, c)\<close> and a failure
  of the sedes of \<^verbatim>\<open>b\<close> this is the field \<^verbatim>\<open>b\<close>.
\<close>

theorem serialize_error_field:
  assumes "cls_meta C = Some m"
  shows
    "(list_serialize (sedes m) obj = Inl (ListSerializationError lm lobj (Some e) (Some (int i)))
        \<and> i < length (field_names m)
      \<longrightarrow> serialize list_serialize C obj
          = Inl (ObjectSerializationError (Field_failed (field_names m ! i) (str_of e)) obj
                   (Some (ListSerializationError lm lobj (Some e) (Some (int i))))
                   (Some (field_names m ! i))))
     \<and> (list_serialize (sedes m) obj = Inl (ListSerializationError lm lobj None None)
      \<longrightarrow> serialize list_serialize C obj
          = Inl (ObjectSerializationError (Underlying_list lm) obj
                   (Some (ListSerializationError lm lobj None None)) None))
     \<and> (new_class name bases body = Inr C \<and> list_ex cls_is_serializable bases
        \<and> serializable_init C args kwargs = Inr r
        \<and> items_of (Instance r) = Inr vals
        \<and> i < length (field_names m)
        \<and> (\<forall>j < i. \<exists>w. ser (sedes m ! j) (vals ! j) = Inr w)
        \<and> ser (sedes m ! i) (vals ! i) = Inl e
      \<longrightarrow> serialize (ListSedes_serialize_obj ser) C (Instance r)
          = Inl (ObjectSerializationError (Field_failed (field_names m ! i) (str_of e))
                   (Instance r)
                   (Some (ListSerializationError (Element_at_index (int i) (str_of e))
                            (Instance r) (Some e) (Some (int i))))
                   (Some (field_names m ! i))))"
proof (intro conjI impI)
  assume "list_serialize (sedes m) obj = Inl (ListSerializationError lm lobj (Some e) (Some (int i)))
        \<and> i < length (field_names m)"
  then show "serialize list_serialize C obj
          = Inl (ObjectSerializationError (Field_failed (field_names m ! i) (str_of e)) obj
                   (Some (ListSerializationError lm lobj (Some e) (Some (int i))))
                   (Some (field_names m ! i)))"
    using assms
    by (simp add: serialize_def ObjectSerializationError_init_def py_index_def)
next
  assume "list_serialize (sedes m) obj = Inl (ListSerializationError lm lobj None None)"
  then show "serialize list_serialize C obj
          = Inl (ObjectSerializationError (Underlying_list lm) obj
                   (Some (ListSerializationError lm lobj None None)) None)"
    using assms by (simp add: serialize_def ObjectSerializationError_init_def)
next
  assume h: "new_class name bases body = Inr C \<and> list_ex cls_is_serializable bases
        \<and> serializable_init C args kwargs = Inr r
        \<and> items_of (Instance r) = Inr vals
        \<and> i < length (field_names m)
        \<and> (\<forall>j < i. \<exists>w. ser (sedes m ! j) (vals ! j) = Inr w)
        \<and> ser (sedes m ! i) (vals ! i) = Inl e"
  with new_class_wf [of name bases body C] assms have wf: "wf_meta m" by auto
  then have ls: "length (sedes m) = length (field_names m)" unfolding wf_meta_def by simp
  from wf have la: "length (field_attrs m) = length (field_names m)"
    unfolding wf_meta_def by blast
  from serializable_init_Inr [OF assms wf, of args kwargs r] h have c: "cls r = C" by blast
  from h have "serializable_iter r = Inr vals" by (simp add: items_of_def)
  with c assms have "getattr_each r (field_attrs m) = Inr vals"
    by (auto simp: serializable_iter_def self_meta_def split: option.splits)
  from getattr_each_length [OF this] la have lv: "length vals = length (field_names m)"
    by simp
  from h ls have i: "i < length (sedes m)" by simp
  have "ListSedes_loop ser (Instance r) 0 (sedes m) vals
         = Inl (ListSerializationError (Element_at_index (int (0 + i)) (str_of e)) (Instance r)
                  (Some e) (Some (int (0 + i))))"
    by (rule ListSedes_loop_fails) (use h ls lv i in simp_all)
  then have "ListSedes_serialize_obj ser (sedes m) (Instance r)
         = Inl (ListSerializationError (Element_at_index (int i) (str_of e)) (Instance r)
                  (Some e) (Some (int i)))"
    using h ls lv by (simp add: ListSedes_serialize_obj_def ListSedes_serialize_def)
  then show "serialize (ListSedes_serialize_obj ser) C (Instance r)
          = Inl (ObjectSerializationError (Field_failed (field_names m ! i) (str_of e))
                   (Instance r)
                   (Some (ListSerializationError (Element_at_index (int i) (str_of e))
                            (Instance r) (Some e) (Some (int i))))
                   (Some (field_names m ! i)))"
    using assms h
    by (simp add: serialize_def ObjectSerializationError_init_def py_index_def)
qed

theorem serialize_error_field_witness:
  "cls_meta class_ABC = Some schema_abc
   \<and> new_class ''ABC'' [Serializable] body_abc = Inr class_ABC
   \<and> list_ex cls_is_serializable [Serializable :: string pyclass]
   \<and> serializable_init class_ABC [Atom 1, Atom 2, Atom 3] [] = Inr instance_abc
   \<and> items_of (Instance instance_abc) = Inr [Atom 1, Atom 2, Atom 3]
   \<and> field_names schema_abc = [''a'', ''b'', ''c'']
   \<and> example_ser (sedes schema_abc ! 0) ([Atom 1, Atom 2, Atom 3] ! 0) = Inr (Leaf [])
   \<and> example_ser (sedes schema_abc ! 1) ([Atom 1, Atom 2, Atom 3] ! 1)
       = Inl (SerializationError (Text ''cannot serialize'') (Other (Atom 2)))
   \<and> serialize (ListSedes_serialize_obj example_ser) class_ABC (Instance instance_abc)
       = Inl (ObjectSerializationError (Field_failed ''b'' (Text ''cannot serialize''))
                (Instance instance_abc)
                (Some (ListSerializationError (Element_at_index 1 (Text ''cannot serialize''))
                         (Instance instance_abc)
                         (Some (SerializationError (Text ''cannot serialize'') (Other (Atom 2))))
                         (Some 1)))
                (Some ''b''))
   \<and> ListSedes_serialize_obj example_ser (sedes schema_abc) (Other (PyTuple [Atom 1]))
       = Inl (ListSerializationError (Text ''length mismatch'') (Other (PyTuple [Atom 1]))
                None None)
   \<and> serialize (ListSedes_serialize_obj example_ser) class_ABC (Other (PyTuple [Atom 1]))
       = Inl (ObjectSerializationError (Underlying_list (Text ''length mismatch''))
                (Other (PyTuple [Atom 1]))
                (Some (ListSerializationError (Text ''length mismatch'')
                         (Other (PyTuple [Atom 1])) None None))
                None)"
proof -
  have m: "cls_meta class_ABC = Some schema_abc" by (simp add: class_ABC_def)
  have s: "list_ex cls_is_serializable [Serializable :: string pyclass]"
    by (simp add: Serializable_def)
  have n: "field_names schema_abc = [''a'', ''b'', ''c'']" by (simp add: schema_abc_def)
  have e0: "example_ser (sedes schema_abc ! 0) ([Atom 1, Atom 2, Atom 3] ! 0) = Inr (Leaf [])"
    by (simp add: example_ser_def schema_abc_def)
  have e1: "example_ser (sedes schema_abc ! 1) ([Atom 1, Atom 2, Atom 3] ! 1)
       = Inl (SerializationError (Text ''cannot serialize'') (Other (Atom 2)))"
    by (simp add: example_ser_def schema_abc_def)
  have before: "\<forall>j < 1. \<exists>w. example_ser (sedes schema_abc ! j) ([Atom 1, Atom 2, Atom 3] ! j) = Inr w"
    using e0 by simp
  have i: "(1::nat) < length (field_names schema_abc)" by (simp add: n)
  note t = serialize_error_field [OF m, where list_serialize = "ListSedes_serialize_obj example_ser"
      and obj = "Other (PyTuple [Atom 1])" and lm = "Text ''length mismatch''"
      and lobj = "Other (PyTuple [Atom 1])" and i = 1 and name = "''ABC''"
      and bases = "[Serializable]" and body = body_abc and args = "[Atom 1, Atom 2, Atom 3]"
      and kwargs = "[]" and r = instance_abc and vals = "[Atom 1, Atom 2, Atom 3]"
      and ser = example_ser
      and e = "SerializationError (Text ''cannot serialize'') (Other (Atom 2))"]
  from t new_class_ABC s init_abc items_abc i before e1
  have r1: "serialize (ListSedes_serialize_obj example_ser) class_ABC (Instance instance_abc)
       = Inl (ObjectSerializationError (Field_failed ''b'' (Text ''cannot serialize''))
                (Instance instance_abc)
                (Some (ListSerializationError (Element_at_index 1 (Text ''cannot serialize''))
                         (Instance instance_abc)
                         (Some (SerializationError (Text ''cannot serialize'') (Other (Atom 2))))
                         (Some 1)))
                (Some ''b''))"
    by (simp add: n)
  from t ListSedes_arity_example
  have r2: "serialize (ListSedes_serialize_obj example_ser) class_ABC (Other (PyTuple [Atom 1]))
       = Inl (ObjectSerializationError (Underlying_list (Text ''length mismatch''))
                (Other (PyTuple [Atom 1]))
                (Some (ListSerializationError (Text ''length mismatch'')
                         (Other (PyTuple [Atom 1])) None None))
                None)"
    by blast
  from m new_class_ABC s init_abc items_abc n e0 e1 r1 ListSedes_arity_example r2
  show ?thesis by (intro conjI)
qed

end
